theory Spec2Isabelle
  imports Main
begin

section \<open>Python values, dictionaries and exceptions\<close>

text \<open>
  The values stored in the sections built by \<open>QChemDictSet.__init__\<close>
  (src/pymatgen/io/qchem/sets.py): strings, the integer of \<open>nbo_params["version"]\<close>,
  the \<open>None\<close> entries of the CMIRS table and the string lists of the opt and scan
  sections.
\<close>

datatype pyval = PStr string | PInt int | PNone | PList "string list"

text \<open>
  A dictionary that the code only indexes is a map. A dictionary whose items the code
  walks in order with effects that depend on the order (\<open>overwrite_inputs\<close> and the
  section dictionaries inside it) is an association list.
\<close>

type_synonym dict = "string \<rightharpoonup> pyval"
type_synonym items = "(string \<times> pyval) list"

datatype error =
    ValueError string
  | RuntimeError string
  | KeyError string
  | TypeError string

text \<open>Python truthiness, as used by \<open>if CMIRS_SETTINGS[...][v].get(k2):\<close>.\<close>

fun truthy :: "pyval \<Rightarrow> bool" where
  "truthy (PStr s) = (s \<noteq> [])"
| "truthy (PInt i) = (i \<noteq> 0)"
| "truthy PNone = False"
| "truthy (PList xs) = (xs \<noteq> [])"

text \<open>\<open>for k, v in temp.items(): d[k] = v\<close>\<close>

fun assign_all :: "dict \<Rightarrow> items \<Rightarrow> dict" where
  "assign_all d [] = d"
| "assign_all d ((k, v) # kvs) = assign_all (d(k \<mapsto> v)) kvs"

subsection \<open>\<open>str\<close> and \<open>int\<close> on integers, \<open>str.lower\<close>\<close>

definition digit_char :: "nat \<Rightarrow> char" where
  "digit_char d = char_of (48 + d)"

function str_nat :: "nat \<Rightarrow> string" where
  "str_nat n = (if n < 10 then [digit_char n] else str_nat (n div 10) @ [digit_char (n mod 10)])"
  by pat_completeness auto
termination
  by (relation "measure (\<lambda>n. n)") auto

definition str_int :: "int \<Rightarrow> string" where
  "str_int i = (if i < 0 then CHR ''-'' # str_nat (nat (- i)) else str_nat (nat i))"

definition is_digit :: "char \<Rightarrow> bool" where
  "is_digit c = (48 \<le> (of_char c :: nat) \<and> (of_char c :: nat) \<le> 57)"

text \<open>
  A character is a code point below 256. \<open>is_space\<close> holds of the ones \<open>str.isspace\<close>
  holds of, which \<open>int()\<close> strips from both ends.
\<close>

definition is_space :: "char \<Rightarrow> bool" where
  "is_space c = ((of_char c :: nat) \<in> {9, 10, 11, 12, 13, 28, 29, 30, 31, 32, 133, 160})"

text \<open>
  The digits of a decimal literal, read left to right into an accumulator; a single
  underscore is allowed between two digits, as \<open>int()\<close> allows it.
\<close>

fun parse_digits :: "nat \<Rightarrow> bool \<Rightarrow> string \<Rightarrow> nat option" where
  "parse_digits acc after_digit [] = (if after_digit then Some acc else None)"
| "parse_digits acc after_digit (c # cs) =
     (if is_digit c then parse_digits (10 * acc + (of_char c - 48)) True cs
      else if c = CHR ''_'' \<and> after_digit then parse_digits acc False cs
      else None)"

definition strip :: "string \<Rightarrow> string" where
  "strip s = rev (dropWhile is_space (rev (dropWhile is_space s)))"

definition int_of_str :: "string \<Rightarrow> int option" where
  "int_of_str s =
     (case strip s of
        [] \<Rightarrow> None
      | c # cs \<Rightarrow>
          if c = CHR ''-'' then map_option (\<lambda>n. - int n) (parse_digits 0 False cs)
          else if c = CHR ''+'' then map_option int (parse_digits 0 False cs)
          else map_option int (parse_digits 0 False (c # cs)))"

text \<open>
  \<open>int(x)\<close> for a section value \<open>x\<close>. The message of the \<open>ValueError\<close> quotes the
  text between apostrophes, as \<open>repr\<close> does for a text without apostrophes, backslashes
  and control characters. The wording of the \<open>TypeError\<close> depends on the version of
  Python; it is shortened here.
\<close>

definition py_int :: "pyval \<Rightarrow> error + int" where
  "py_int x =
     (case x of
        PStr s \<Rightarrow> (case int_of_str s of
                    Some i \<Rightarrow> Inr i
                  | None \<Rightarrow>
                      Inl (ValueError (''invalid literal for int() with base 10: ''
                                       @ [CHR 0x27] @ s @ [CHR 0x27])))
      | PInt i \<Rightarrow> Inr i
      | PNone \<Rightarrow> Inl (TypeError ''int() argument must be a string or a number'')
      | PList xs \<Rightarrow> Inl (TypeError ''int() argument must be a string or a number''))"

definition lower_char :: "char \<Rightarrow> char" where
  "lower_char c =
     (if (65 \<le> (of_char c :: nat) \<and> (of_char c :: nat) \<le> 90)
         \<or> (192 \<le> (of_char c :: nat) \<and> (of_char c :: nat) \<le> 222 \<and> (of_char c :: nat) \<noteq> 215)
      then char_of ((of_char c :: nat) + 32)
      else c)"

definition lower :: "string \<Rightarrow> string" where
  "lower s = map lower_char s"

subsection \<open>Sequencing of steps that may raise\<close>

definition bind_err :: "'e + 'a \<Rightarrow> ('a \<Rightarrow> 'e + 'b) \<Rightarrow> 'e + 'b" where
  "bind_err r f = (case r of Inl e \<Rightarrow> Inl e | Inr a \<Rightarrow> f a)"

section \<open>The static CMIRS table\<close>

text \<open>
  One entry of \<open>CMIRS_SETTINGS\<close>: the coefficient dictionaries stored under the keys
  \<open>"0.001"\<close> and \<open>"0.0005"\<close>, and the string stored under \<open>"dielst"\<close>.
\<close>

record cmirs_entry =
  iso_001 :: dict
  iso_0005 :: dict
  dielst :: string

type_synonym cmirs_table = "string \<rightharpoonup> cmirs_entry"

definition coeffs :: "pyval \<Rightarrow> pyval \<Rightarrow> pyval \<Rightarrow> pyval \<Rightarrow> pyval \<Rightarrow> pyval \<Rightarrow> dict" where
  "coeffs a b c d g r =
     [''a'' \<mapsto> a, ''b'' \<mapsto> b, ''c'' \<mapsto> c, ''d'' \<mapsto> d, ''gamma'' \<mapsto> g, ''solvrho'' \<mapsto> r]"

definition cmirs_water :: cmirs_entry where
  "cmirs_water =
     \<lparr>iso_001 = coeffs (PStr ''-0.006736'') (PStr ''0.032698'') (PStr ''-1249.6'')
                  (PStr ''-21.405'') (PStr ''3.7'') (PStr ''0.05''),
      iso_0005 = coeffs (PStr ''-0.006496'') (PStr ''0.050833'') (PStr ''-566.7'')
                  (PStr ''-30.503'') (PStr ''3.2'') (PStr ''0.05''),
      dielst = ''78.39''\<rparr>"

definition cmirs_benzene :: cmirs_entry where
  "cmirs_benzene =
     \<lparr>iso_001 = coeffs (PStr ''-0.00522'') (PStr ''0.01294'') PNone PNone PNone (PStr ''0.0421''),
      iso_0005 = coeffs (PStr ''-0.00572'') (PStr ''0.01116'') PNone PNone PNone (PStr ''0.0421''),
      dielst = ''2.28''\<rparr>"

definition cmirs_cyclohexane :: cmirs_entry where
  "cmirs_cyclohexane =
     \<lparr>iso_001 = coeffs (PStr ''-0.00938'') (PStr ''0.03184'') PNone PNone PNone (PStr ''0.0396''),
      iso_0005 = coeffs (PStr ''-0.00721'') (PStr ''0.05618'') PNone PNone PNone (PStr ''0.0396''),
      dielst = ''2.02''\<rparr>"

definition cmirs_dmso :: cmirs_entry where
  "cmirs_dmso =
     \<lparr>iso_001 = coeffs (PStr ''-0.00951'') (PStr ''0.044791'') PNone (PStr ''-162.07'')
                  (PStr ''4.1'') (PStr ''0.05279''),
      iso_0005 = coeffs (PStr ''-0.002523'') (PStr ''0.011757'') PNone (PStr ''-817.93'')
                  (PStr ''4.3'') (PStr ''0.05279''),
      dielst = ''47''\<rparr>"

definition cmirs_acetonitrile :: cmirs_entry where
  "cmirs_acetonitrile =
     \<lparr>iso_001 = coeffs (PStr ''-0.008178'') (PStr ''0.045278'') PNone (PStr ''-0.33914'')
                  (PStr ''1.3'') (PStr ''0.03764''),
      iso_0005 = coeffs (PStr ''-0.003805'') (PStr ''0.03223'') PNone (PStr ''-0.44492'')
                  (PStr ''1.2'') (PStr ''0.03764''),
      dielst = ''36.64''\<rparr>"

definition CMIRS_SETTINGS :: cmirs_table where
  "CMIRS_SETTINGS =
     [''water'' \<mapsto> cmirs_water,
      ''benzene'' \<mapsto> cmirs_benzene,
      ''cyclohexane'' \<mapsto> cmirs_cyclohexane,
      ''dimethyl sulfoxide'' \<mapsto> cmirs_dmso,
      ''acetonitrile'' \<mapsto> cmirs_acetonitrile]"

section \<open>The arguments of \<open>QChemDictSet.__init__\<close>\<close>

text \<open>
  The keyword arguments, with the source's names. The molecule is handed to the
  superclass unread and is left out. A float dielectric is carried by the text that
  \<open>str()\<close> gives for it: the build does nothing with it but call \<open>str\<close>.
\<close>

type_synonym pyfloat = string

definition str_float :: "pyfloat \<Rightarrow> string" where
  "str_float x = x"

record job_input =
  job_type :: string
  basis_set :: string
  scf_algorithm :: string
  dft_rung :: int
  pcm_dielectric :: "pyfloat option"
  isosvp_dielectric :: "pyfloat option"
  smd_solvent :: "string option"
  cmirs_solvent :: "string option"
  custom_smd :: "string option"
  opt_variables :: "dict option"
  scan_variables :: "dict option"
  max_scf_cycles :: int
  geom_opt_max_cycles :: int
  plot_cubes :: bool
  nbo_params :: "dict option"
  new_geom_opt :: "dict option"
  overwrite_inputs :: "(string \<times> items) list option"
  vdw_mode :: string
  extra_scf_print :: bool

text \<open>
  The local variables of \<open>__init__\<close>. \<open>self_new_geom_opt\<close> is the caller's
  \<open>new_geom_opt\<close> dictionary, which line 407 writes to. \<open>nonels_alias\<close> is \<open>None\<close> while
  \<open>mypcm_nonels\<close> is the fresh dictionary of line 306, and \<open>Some s\<close> once line 378 has
  bound it to the dictionary object \<open>CMIRS_SETTINGS[s]["0.001"]\<close>. \<open>mynbo\<close> and
  \<open>my_geom_opt\<close> are \<open>None\<close> until lines 387 and 400 bind them. \<open>warnings\<close> collects
  the messages passed to \<open>warnings.warn\<close>, oldest first.
\<close>

record locals =
  myrem :: dict
  myopt :: dict
  mypcm :: dict
  mysolvent :: dict
  mysmx :: dict
  myscan :: dict
  myvdw :: dict
  myplots :: dict
  mysvp :: dict
  mypcm_nonels :: dict
  mynbo :: "dict option"
  my_geom_opt :: "dict option"
  self_new_geom_opt :: "dict option"
  nonels_alias :: "string option"
  warnings :: "string list"

definition pcm_defaults :: dict where
  "pcm_defaults =
     [''heavypoints'' \<mapsto> PStr ''194'', ''hpoints'' \<mapsto> PStr ''194'', ''radii'' \<mapsto> PStr ''uff'',
      ''theory'' \<mapsto> PStr ''cpcm'', ''vdwscale'' \<mapsto> PStr ''1.1'']"

definition svp_defaults :: dict where
  "svp_defaults =
     [''rhoiso'' \<mapsto> PStr ''0.001'', ''nptleb'' \<mapsto> PStr ''1202'', ''itrngr'' \<mapsto> PStr ''2'',
      ''irotgr'' \<mapsto> PStr ''2'']"

definition plots_defaults :: dict where
  "plots_defaults = [''grid_spacing'' \<mapsto> PStr ''0.05'', ''total_density'' \<mapsto> PStr ''0'']"

subsection \<open>The messages of the exceptions and warnings\<close>

definition err_dft_rung :: error where
  "err_dft_rung = ValueError ''dft_rung should be between 1 and 5!''"

definition err_solvation :: error where
  "err_solvation = ValueError ''Only one of PCM, ISOSVP, SMD, and CMIRSmay be used for solvation.''"

definition err_custom_smd :: error where
  "err_custom_smd = ValueError
     (''A user-defined SMD requires passing custom_smd, a string''
      @ '' of seven comma separated values in the following order:''
      @ '' dielectric, refractive index, acidity, basicity, surface''
      @ '' tension, aromaticity, electronegative halogenicity'')"

definition err_nbo_version :: error where
  "err_nbo_version = RuntimeError ''nbo params version should only be set to 7! Exiting...''"

definition err_maxiter :: error where
  "err_maxiter = RuntimeError ''Max # of optimization cycles must be the same! Exiting...''"

definition err_overwrite_nbo :: error where
  "err_overwrite_nbo =
     RuntimeError (''Can'' @ [CHR 0x27] @ ''t overwrite nbo params when NBO is not being run! Exiting...'')"

definition err_overwrite_geom_opt :: error where
  "err_overwrite_geom_opt =
     RuntimeError (''Can'' @ [CHR 0x27]
       @ ''t overwrite geom_opt params when not using the new optimizer! Exiting...'')"

definition err_rhoiso :: error where
  "err_rhoiso =
     RuntimeError ''CMIRS is only parameterized for RHOISO values of 0.001 or 0.0005! Exiting...''"

definition warn_solvent :: string where
  "warn_solvent = ''The solvent section will be ignored unless solvent_method=pcm!''"

definition warn_idefesr_0 :: string where
  "warn_idefesr_0 = ''Setting IDEFESR=0 will disable the CMIRS calculation you requested!''"

definition warn_idefesr_1 :: string where
  "warn_idefesr_1 = ''Setting IDEFESR=1 will have no effect unless you specify a cmirs_solvent!''"

definition warn_dielst :: string where
  "warn_dielst = ''Setting DIELST will have no effect unless you specify a solvent_method=isosvp!''"

section \<open>\<open>QChemDictSet.__init__\<close>, step by step\<close>

text \<open>
  A step either returns the locals or raises: \<open>Inl (e, st)\<close> is the exception \<open>e\<close>
  together with the locals \<open>st\<close> as they are when it is raised. \<open>in_state st r\<close> is a
  call that returns or raises \<open>r\<close>, made in the state \<open>st\<close>.
\<close>

type_synonym raised = "error \<times> locals"

definition in_state :: "locals \<Rightarrow> error + 'a \<Rightarrow> raised + 'a" where
  "in_state st r = (case r of Inl e \<Rightarrow> Inl (e, st) | Inr x \<Rightarrow> Inr x)"

subsection \<open>Lines 289-334: the seed of the rem section, the functional, the cycle limit\<close>

definition init_locals :: "job_input \<Rightarrow> locals" where
  "init_locals inp =
     \<lparr>myrem =
        [''job_type'' \<mapsto> PStr (job_type inp),
         ''basis'' \<mapsto> PStr (basis_set inp),
         ''max_scf_cycles'' \<mapsto> PStr (str_int (max_scf_cycles inp)),
         ''gen_scfman'' \<mapsto> PStr ''true'',
         ''xc_grid'' \<mapsto> PStr ''3'',
         ''thresh'' \<mapsto> PStr ''14'',
         ''s2thresh'' \<mapsto> PStr ''16'',
         ''scf_algorithm'' \<mapsto> PStr (scf_algorithm inp),
         ''resp_charges'' \<mapsto> PStr ''true'',
         ''symmetry'' \<mapsto> PStr ''false'',
         ''sym_ignore'' \<mapsto> PStr ''true''],
      myopt = (case opt_variables inp of None \<Rightarrow> Map.empty | Some d \<Rightarrow> d),
      mypcm = Map.empty,
      mysolvent = Map.empty,
      mysmx = Map.empty,
      myscan = (case scan_variables inp of None \<Rightarrow> Map.empty | Some d \<Rightarrow> d),
      myvdw = Map.empty,
      myplots = Map.empty,
      mysvp = Map.empty,
      mypcm_nonels = Map.empty,
      mynbo = None,
      my_geom_opt = None,
      self_new_geom_opt = new_geom_opt inp,
      nonels_alias = None,
      warnings = []\<rparr>"

definition set_method :: "job_input \<Rightarrow> locals \<Rightarrow> raised + locals" where
  "set_method inp st =
     (if dft_rung inp = 1 then Inr (st\<lparr>myrem := (myrem st)(''method'' \<mapsto> PStr ''b3lyp'')\<rparr>)
      else if dft_rung inp = 2 then
        Inr (st\<lparr>myrem := (myrem st)(''method'' \<mapsto> PStr ''b3lyp'', ''dft_D'' \<mapsto> PStr ''D3_BJ'')\<rparr>)
      else if dft_rung inp = 3 then Inr (st\<lparr>myrem := (myrem st)(''method'' \<mapsto> PStr ''wb97xd'')\<rparr>)
      else if dft_rung inp = 4 then Inr (st\<lparr>myrem := (myrem st)(''method'' \<mapsto> PStr ''wb97xv'')\<rparr>)
      else if dft_rung inp = 5 then Inr (st\<lparr>myrem := (myrem st)(''method'' \<mapsto> PStr ''wb97mv'')\<rparr>)
      else Inl (err_dft_rung, st))"

definition set_geom_opt_max_cycles :: "job_input \<Rightarrow> locals \<Rightarrow> locals" where
  "set_geom_opt_max_cycles inp st =
     (if lower (job_type inp) \<in> set [''opt'', ''ts'', ''pes_scan''] then
        st\<lparr>myrem := (myrem st)(''geom_opt_max_cycles'' \<mapsto> PStr (str_int (geom_opt_max_cycles inp)))\<rparr>
      else st)"

definition stage_seed :: "job_input \<Rightarrow> raised + locals" where
  "stage_seed inp =
     bind_err (set_method inp (init_locals inp)) (\<lambda>st. Inr (set_geom_opt_max_cycles inp st))"

subsection \<open>Lines 336-380: the solvation models\<close>

text \<open>The counter of lines 336-339: how many of the four selectors are not \<open>None\<close>.\<close>

definition solvent_def :: "job_input \<Rightarrow> nat" where
  "solvent_def inp =
     length (filter (\<lambda>b. b)
       [pcm_dielectric inp \<noteq> None, isosvp_dielectric inp \<noteq> None,
        smd_solvent inp \<noteq> None, cmirs_solvent inp \<noteq> None])"

definition check_solvent_def :: "job_input \<Rightarrow> locals \<Rightarrow> raised + locals" where
  "check_solvent_def inp st = (if solvent_def inp > 1 then Inl (err_solvation, st) else Inr st)"

definition setup_pcm :: "job_input \<Rightarrow> locals \<Rightarrow> locals" where
  "setup_pcm inp st =
     (case pcm_dielectric inp of
        None \<Rightarrow> st
      | Some eps \<Rightarrow>
          st\<lparr>mypcm := pcm_defaults,
             mysolvent := (mysolvent st)(''dielectric'' \<mapsto> PStr (str_float eps)),
             myrem := (myrem st)(''solvent_method'' \<mapsto> PStr ''pcm'')\<rparr>)"

definition setup_isosvp :: "job_input \<Rightarrow> locals \<Rightarrow> locals" where
  "setup_isosvp inp st =
     (case isosvp_dielectric inp of
        None \<Rightarrow> st
      | Some eps \<Rightarrow>
          st\<lparr>mysvp := svp_defaults(''dielst'' \<mapsto> PStr (str_float eps)),
             myrem := (myrem st)(''solvent_method'' \<mapsto> PStr ''isosvp'',
                                 ''gen_scfman'' \<mapsto> PStr ''false'')\<rparr>)"

definition setup_smd :: "job_input \<Rightarrow> locals \<Rightarrow> raised + locals" where
  "setup_smd inp st =
     (case smd_solvent inp of
        None \<Rightarrow> Inr st
      | Some s \<Rightarrow>
          (let st1 = st\<lparr>mysmx := (mysmx st)(''solvent'' \<mapsto>
                                     (if s = ''custom'' then PStr ''other'' else PStr s)),
                        myrem := (myrem st)(''solvent_method'' \<mapsto> PStr ''smd'',
                                            ''ideriv'' \<mapsto> PStr ''1'')\<rparr>
           in if s \<in> set [''custom'', ''other''] \<and> custom_smd inp = None
              then Inl (err_custom_smd, st1)
              else Inr st1))"

text \<open>
  \<open>tbl\<close> is the module-level \<open>CMIRS_SETTINGS\<close> as the build finds it. Line 378 binds
  \<open>mypcm_nonels\<close> to the dictionary object stored in the table under the solvent and
  \<open>mysvp["rhoiso"]\<close>, which is \<open>"0.001"\<close> here; from then on \<open>mypcm_nonels\<close> and that
  slot of the table are one object (see \<open>table_after\<close> below).
\<close>

definition setup_cmirs :: "cmirs_table \<Rightarrow> job_input \<Rightarrow> locals \<Rightarrow> raised + locals" where
  "setup_cmirs tbl inp st =
     (case cmirs_solvent inp of
        None \<Rightarrow> Inr st
      | Some s \<Rightarrow>
          (let st1 = st\<lparr>mysvp := svp_defaults,
                        myrem := (myrem st)(''solvent_method'' \<mapsto> PStr ''isosvp'',
                                            ''gen_scfman'' \<mapsto> PStr ''false'')\<rparr>
           in case tbl s of
                None \<Rightarrow> Inl (KeyError s, st1)
              | Some e \<Rightarrow>
                  Inr (st1\<lparr>mysvp := svp_defaults(''dielst'' \<mapsto> PStr (dielst e),
                                                  ''idefesr'' \<mapsto> PStr ''1'',
                                                  ''ipnrf'' \<mapsto> PStr ''1''),
                           mypcm_nonels := (iso_001 e)(''delta'' \<mapsto> PStr ''7'',
                                                       ''gaulag_n'' \<mapsto> PStr ''40''),
                           nonels_alias := Some s\<rparr>)))"

definition stage_solvation :: "cmirs_table \<Rightarrow> job_input \<Rightarrow> locals \<Rightarrow> raised + locals" where
  "stage_solvation tbl inp st =
     bind_err (check_solvent_def inp st) (\<lambda>st.
     bind_err (setup_smd inp (setup_isosvp inp (setup_pcm inp st))) (\<lambda>st.
     setup_cmirs tbl inp st))"

subsection \<open>Lines 382-410: cube files, NBO, the new geometry optimizer\<close>

definition setup_plots :: "job_input \<Rightarrow> locals \<Rightarrow> locals" where
  "setup_plots inp st =
     (if plot_cubes inp then
        st\<lparr>myplots := plots_defaults,
           myrem := (myrem st)(''plots'' \<mapsto> PStr ''true'', ''make_cube_files'' \<mapsto> PStr ''true'')\<rparr>
      else st)"

text \<open>Lines 395-398 copy every entry but \<open>"version"\<close> into a fresh dictionary.\<close>

definition setup_nbo :: "job_input \<Rightarrow> locals \<Rightarrow> raised + locals" where
  "setup_nbo inp st =
     (case nbo_params inp of
        None \<Rightarrow> Inr (st\<lparr>mynbo := None\<rparr>)
      | Some p \<Rightarrow>
          (let st1 = st\<lparr>mynbo := Some p, myrem := (myrem st)(''nbo'' \<mapsto> PStr ''true'')\<rparr> in
           case p ''version'' of
             None \<Rightarrow> Inr (st1\<lparr>mynbo := Some (p(''version'' := None))\<rparr>)
           | Some v \<Rightarrow>
               if v = PInt 7 then
                 Inr (st1\<lparr>myrem := (myrem st1)(''nbo_external'' \<mapsto> PStr ''true''),
                          mynbo := Some (p(''version'' := None))\<rparr>)
               else Inl (err_nbo_version, st1)))"

text \<open>
  Line 407 stores the derived \<open>"maxiter"\<close> in \<open>self.new_geom_opt\<close>, the caller's
  dictionary; lines 408-410 then copy that dictionary into a fresh one.
\<close>

definition setup_new_geom_opt :: "job_input \<Rightarrow> locals \<Rightarrow> raised + locals" where
  "setup_new_geom_opt inp st =
     (case self_new_geom_opt st of
        None \<Rightarrow> Inr (st\<lparr>my_geom_opt := None\<rparr>)
      | Some g \<Rightarrow>
          (let st1 = st\<lparr>my_geom_opt := Some g,
                        myrem := (myrem st)(''geom_opt2'' \<mapsto> PStr ''3'')\<rparr> in
           case g ''maxiter'' of
             Some v \<Rightarrow>
               if v \<noteq> PStr (str_int (geom_opt_max_cycles inp)) then Inl (err_maxiter, st1)
               else Inr (st1\<lparr>my_geom_opt := Some g\<rparr>)
           | None \<Rightarrow>
               (let g1 = g(''maxiter'' \<mapsto> PStr (str_int (geom_opt_max_cycles inp)))
                in Inr (st1\<lparr>self_new_geom_opt := Some g1, my_geom_opt := Some g1\<rparr>))))"

definition stage_features :: "job_input \<Rightarrow> locals \<Rightarrow> raised + locals" where
  "stage_features inp st =
     bind_err (setup_nbo inp (setup_plots inp st)) (\<lambda>st. setup_new_geom_opt inp st)"

subsection \<open>Lines 412-497: the merge of \<open>overwrite_inputs\<close>\<close>

text \<open>
  \<open>lower_and_check_unique\<close> lives in pymatgen/io/qchem/utils.py, outside the source
  at hand. The build takes it as the parameter \<open>norm\<close>: it maps the items of a section
  dictionary to the items of the normalised one, or raises.
\<close>

type_synonym normalizer = "items \<Rightarrow> error + items"

definition warn :: "string \<Rightarrow> locals \<Rightarrow> locals" where
  "warn msg st = st\<lparr>warnings := warnings st @ [msg]\<rparr>"

text \<open>\<open>myrem["solvent_method"]\<close>: a \<open>KeyError\<close> when the key is not there.\<close>

definition rem_solvent_method :: "locals \<Rightarrow> raised + pyval" where
  "rem_solvent_method st =
     (case myrem st ''solvent_method'' of
        None \<Rightarrow> Inl (KeyError ''solvent_method'', st)
      | Some m \<Rightarrow> Inr m)"

definition ow_rem :: "normalizer \<Rightarrow> string \<Rightarrow> items \<Rightarrow> locals \<Rightarrow> raised + locals" where
  "ow_rem norm sec sec_dict st =
     (if sec = ''rem'' then
        bind_err (in_state st (norm sec_dict)) (\<lambda>temp. Inr (st\<lparr>myrem := assign_all (myrem st) temp\<rparr>))
      else Inr st)"

definition ow_pcm :: "normalizer \<Rightarrow> string \<Rightarrow> items \<Rightarrow> locals \<Rightarrow> raised + locals" where
  "ow_pcm norm sec sec_dict st =
     (if sec = ''pcm'' then
        bind_err (in_state st (norm sec_dict)) (\<lambda>temp. Inr (st\<lparr>mypcm := assign_all (mypcm st) temp\<rparr>))
      else Inr st)"

definition ow_solvent :: "normalizer \<Rightarrow> string \<Rightarrow> items \<Rightarrow> locals \<Rightarrow> raised + locals" where
  "ow_solvent norm sec sec_dict st =
     (if sec = ''solvent'' then
        bind_err (in_state st (norm sec_dict)) (\<lambda>temp.
        bind_err (rem_solvent_method st) (\<lambda>m.
        let st1 = (if m \<noteq> PStr ''pcm'' then warn warn_solvent st else st)
        in Inr (st1\<lparr>mysolvent := assign_all (mysolvent st1) temp\<rparr>)))
      else Inr st)"

definition ow_smx :: "normalizer \<Rightarrow> string \<Rightarrow> items \<Rightarrow> locals \<Rightarrow> raised + locals" where
  "ow_smx norm sec sec_dict st =
     (if sec = ''smx'' then
        bind_err (in_state st (norm sec_dict)) (\<lambda>temp. Inr (st\<lparr>mysmx := assign_all (mysmx st) temp\<rparr>))
      else Inr st)"

definition ow_scan :: "normalizer \<Rightarrow> string \<Rightarrow> items \<Rightarrow> locals \<Rightarrow> raised + locals" where
  "ow_scan norm sec sec_dict st =
     (if sec = ''scan'' then
        bind_err (in_state st (norm sec_dict)) (\<lambda>temp. Inr (st\<lparr>myscan := assign_all (myscan st) temp\<rparr>))
      else Inr st)"

definition ow_vdw :: "normalizer \<Rightarrow> string \<Rightarrow> items \<Rightarrow> locals \<Rightarrow> raised + locals" where
  "ow_vdw norm sec sec_dict st =
     (if sec = ''van_der_waals'' then
        bind_err (in_state st (norm sec_dict)) (\<lambda>temp.
        Inr (st\<lparr>myvdw := assign_all (myvdw st) temp,
                mypcm := (mypcm st)(''radii'' \<mapsto> PStr ''read'')\<rparr>))
      else Inr st)"

definition ow_plots :: "normalizer \<Rightarrow> string \<Rightarrow> items \<Rightarrow> locals \<Rightarrow> raised + locals" where
  "ow_plots norm sec sec_dict st =
     (if sec = ''plots'' then
        bind_err (in_state st (norm sec_dict)) (\<lambda>temp. Inr (st\<lparr>myplots := assign_all (myplots st) temp\<rparr>))
      else Inr st)"

definition ow_nbo :: "normalizer \<Rightarrow> string \<Rightarrow> items \<Rightarrow> locals \<Rightarrow> raised + locals" where
  "ow_nbo norm sec sec_dict st =
     (if sec = ''nbo'' then
        (case mynbo st of
           None \<Rightarrow> Inl (err_overwrite_nbo, st)
         | Some d \<Rightarrow>
             bind_err (in_state st (norm sec_dict)) (\<lambda>temp. Inr (st\<lparr>mynbo := Some (assign_all d temp)\<rparr>)))
      else Inr st)"

definition ow_geom_opt :: "normalizer \<Rightarrow> string \<Rightarrow> items \<Rightarrow> locals \<Rightarrow> raised + locals" where
  "ow_geom_opt norm sec sec_dict st =
     (if sec = ''geom_opt'' then
        (case my_geom_opt st of
           None \<Rightarrow> Inl (err_overwrite_geom_opt, st)
         | Some d \<Rightarrow>
             bind_err (in_state st (norm sec_dict)) (\<lambda>temp. Inr (st\<lparr>my_geom_opt := Some (assign_all d temp)\<rparr>)))
      else Inr st)"

definition ow_opt :: "normalizer \<Rightarrow> string \<Rightarrow> items \<Rightarrow> locals \<Rightarrow> raised + locals" where
  "ow_opt norm sec sec_dict st =
     (if sec = ''opt'' then
        bind_err (in_state st (norm sec_dict)) (\<lambda>temp. Inr (st\<lparr>myopt := assign_all (myopt st) temp\<rparr>))
      else Inr st)"

text \<open>
  \<open>CMIRS_SETTINGS[self.cmirs_solvent][v]\<close> at lines 475-476, reached only for \<open>v\<close> one
  of \<open>"0.001"\<close> and \<open>"0.0005"\<close>. The slot \<open>"0.001"\<close> is the object \<open>mypcm_nonels\<close>
  itself (line 378), so it is read from the locals.
\<close>

definition cmirs_contour :: "cmirs_table \<Rightarrow> string \<Rightarrow> pyval \<Rightarrow> locals \<Rightarrow> raised + dict" where
  "cmirs_contour tbl s v st =
     (case tbl s of
        None \<Rightarrow> Inl (KeyError s, st)
      | Some e \<Rightarrow>
          if v = PStr ''0.001'' then Inr (mypcm_nonels st)
          else if v = PStr ''0.0005'' then Inr (iso_0005 e)
          else Inl (KeyError ''rhoiso'', st))"

text \<open>
  Lines 474-476: every key of \<open>mypcm_nonels\<close> whose entry in the table's dictionary
  is truthy takes that entry; the other keys keep their values, and no key is added.
\<close>

definition remerge :: "dict \<Rightarrow> dict \<Rightarrow> dict" where
  "remerge src d =
     (\<lambda>k2. case d k2 of
              None \<Rightarrow> None
            | Some old \<Rightarrow>
                (case src k2 of
                   None \<Rightarrow> Some old
                 | Some new \<Rightarrow> if truthy new then Some new else Some old))"

definition svp_rhoiso :: "cmirs_table \<Rightarrow> job_input \<Rightarrow> string \<Rightarrow> pyval \<Rightarrow> locals \<Rightarrow> raised + locals" where
  "svp_rhoiso tbl inp k v st =
     (if k = ''rhoiso'' then
        (case cmirs_solvent inp of
           None \<Rightarrow> Inr st
         | Some s \<Rightarrow>
             if v \<notin> set [PStr ''0.001'', PStr ''0.0005''] then Inl (err_rhoiso, st)
             else bind_err (cmirs_contour tbl s v st) (\<lambda>src.
                  Inr (st\<lparr>mypcm_nonels := remerge src (mypcm_nonels st)\<rparr>)))
      else Inr st)"

definition svp_idefesr :: "job_input \<Rightarrow> string \<Rightarrow> pyval \<Rightarrow> locals \<Rightarrow> locals" where
  "svp_idefesr inp k v st =
     (if k = ''idefesr'' then
        (let st1 = (if cmirs_solvent inp \<noteq> None \<and> v = PStr ''0'' then warn warn_idefesr_0 st
                    else st)
         in if cmirs_solvent inp = None \<and> v = PStr ''1'' then warn warn_idefesr_1 st1 else st1)
      else st)"

definition svp_dielst :: "string \<Rightarrow> locals \<Rightarrow> raised + locals" where
  "svp_dielst k st =
     (if k = ''dielst'' then
        bind_err (rem_solvent_method st) (\<lambda>m.
        Inr (if m \<noteq> PStr ''isosvp'' then warn warn_dielst st else st))
      else Inr st)"

definition svp_item :: "cmirs_table \<Rightarrow> job_input \<Rightarrow> string \<Rightarrow> pyval \<Rightarrow> locals \<Rightarrow> raised + locals" where
  "svp_item tbl inp k v st =
     bind_err (svp_rhoiso tbl inp k v st) (\<lambda>st.
     bind_err (svp_dielst k (svp_idefesr inp k v st)) (\<lambda>st.
     Inr (st\<lparr>mysvp := (mysvp st)(k \<mapsto> v)\<rparr>)))"

fun svp_items :: "cmirs_table \<Rightarrow> job_input \<Rightarrow> items \<Rightarrow> locals \<Rightarrow> raised + locals" where
  "svp_items tbl inp [] st = Inr st"
| "svp_items tbl inp ((k, v) # kvs) st =
     bind_err (svp_item tbl inp k v st) (svp_items tbl inp kvs)"

definition ow_svp ::
  "normalizer \<Rightarrow> cmirs_table \<Rightarrow> job_input \<Rightarrow> string \<Rightarrow> items \<Rightarrow> locals \<Rightarrow> raised + locals" where
  "ow_svp norm tbl inp sec sec_dict st =
     (if sec = ''svp'' then bind_err (in_state st (norm sec_dict)) (\<lambda>temp. svp_items tbl inp temp st)
      else Inr st)"

definition ow_pcm_nonels :: "normalizer \<Rightarrow> string \<Rightarrow> items \<Rightarrow> locals \<Rightarrow> raised + locals" where
  "ow_pcm_nonels norm sec sec_dict st =
     (if sec = ''pcm_nonels'' then
        bind_err (in_state st (norm sec_dict)) (\<lambda>temp.
        Inr (st\<lparr>mypcm_nonels := assign_all (mypcm_nonels st) temp\<rparr>))
      else Inr st)"

text \<open>The body of the loop of line 413: the \<open>if sec == ...\<close> statements, one after another.\<close>

definition overwrite_section ::
  "normalizer \<Rightarrow> cmirs_table \<Rightarrow> job_input \<Rightarrow> string \<Rightarrow> items \<Rightarrow> locals \<Rightarrow> raised + locals" where
  "overwrite_section norm tbl inp sec sec_dict st =
     bind_err (ow_rem norm sec sec_dict st) (\<lambda>st.
     bind_err (ow_pcm norm sec sec_dict st) (\<lambda>st.
     bind_err (ow_solvent norm sec sec_dict st) (\<lambda>st.
     bind_err (ow_smx norm sec sec_dict st) (\<lambda>st.
     bind_err (ow_scan norm sec sec_dict st) (\<lambda>st.
     bind_err (ow_vdw norm sec sec_dict st) (\<lambda>st.
     bind_err (ow_plots norm sec sec_dict st) (\<lambda>st.
     bind_err (ow_nbo norm sec sec_dict st) (\<lambda>st.
     bind_err (ow_geom_opt norm sec sec_dict st) (\<lambda>st.
     bind_err (ow_opt norm sec sec_dict st) (\<lambda>st.
     bind_err (ow_svp norm tbl inp sec sec_dict st) (\<lambda>st.
     ow_pcm_nonels norm sec sec_dict st)))))))))))"

fun overwrite_sections ::
  "normalizer \<Rightarrow> cmirs_table \<Rightarrow> job_input \<Rightarrow> (string \<times> items) list \<Rightarrow> locals \<Rightarrow> raised + locals"
  where
  "overwrite_sections norm tbl inp [] st = Inr st"
| "overwrite_sections norm tbl inp ((sec, sec_dict) # rest) st =
     bind_err (overwrite_section norm tbl inp sec sec_dict st)
       (overwrite_sections norm tbl inp rest)"

text \<open>\<open>if self.overwrite_inputs:\<close> is false for \<open>None\<close> and for the empty dictionary.\<close>

definition stage_overwrite ::
  "normalizer \<Rightarrow> cmirs_table \<Rightarrow> job_input \<Rightarrow> locals \<Rightarrow> raised + locals" where
  "stage_overwrite norm tbl inp st =
     (case overwrite_inputs inp of
        None \<Rightarrow> Inr st
      | Some ovr \<Rightarrow> overwrite_sections norm tbl inp ovr st)"

subsection \<open>Lines 499-508: the extra SCF print-out\<close>

definition stage_extra_scf_print :: "job_input \<Rightarrow> locals \<Rightarrow> raised + locals" where
  "stage_extra_scf_print inp st =
     (if extra_scf_print inp then
        (let st1 = st\<lparr>myrem := (myrem st)(''scf_final_print'' \<mapsto> PStr ''3'')\<rparr> in
         case myrem st1 ''scf_convergence'' of
           None \<Rightarrow> Inr (st1\<lparr>myrem := (myrem st1)(''scf_convergence'' \<mapsto> PStr ''8'')\<rparr>)
         | Some c \<Rightarrow>
             bind_err (in_state st1 (py_int c)) (\<lambda>i.
             Inr (if i < 8 then st1\<lparr>myrem := (myrem st1)(''scf_convergence'' \<mapsto> PStr ''8'')\<rparr>
                  else st1)))
      else Inr st)"

subsection \<open>Lines 510-525: the call of the superclass constructor\<close>

text \<open>
  The arguments of \<open>super().__init__(...)\<close>, but for the molecule. \<open>QCInput.__init__\<close>
  lives in pymatgen/io/qchem/inputs.py, outside the source at hand; the build takes it as
  the parameter \<open>super\<close>, which tells for the arguments it is given whether the constructor
  returns (\<open>None\<close>) or raises.
\<close>

record qcinput_args =
  arg_rem :: dict
  arg_opt :: dict
  arg_pcm :: dict
  arg_solvent :: dict
  arg_smx :: dict
  arg_scan :: dict
  arg_van_der_waals :: dict
  arg_vdw_mode :: string
  arg_plots :: dict
  arg_nbo :: "dict option"
  arg_geom_opt :: "dict option"
  arg_svp :: dict
  arg_pcm_nonels :: dict

type_synonym superclass = "qcinput_args \<Rightarrow> error option"

definition super_args :: "job_input \<Rightarrow> locals \<Rightarrow> qcinput_args" where
  "super_args inp st =
     \<lparr>arg_rem = myrem st, arg_opt = myopt st, arg_pcm = mypcm st, arg_solvent = mysolvent st,
      arg_smx = mysmx st, arg_scan = myscan st, arg_van_der_waals = myvdw st,
      arg_vdw_mode = vdw_mode inp, arg_plots = myplots st, arg_nbo = mynbo st,
      arg_geom_opt = my_geom_opt st, arg_svp = mysvp st, arg_pcm_nonels = mypcm_nonels st\<rparr>"

subsection \<open>The whole constructor, and what it leaves behind\<close>

text \<open>
  What the constructor leaves behind, whether it returns or raises: its locals (\<open>built\<close>:
  when it returns, the sections of the new object), and the objects it shares with its
  surroundings as it leaves them: the module-level table, whose slot
  \<open>CMIRS_SETTINGS[s]["0.001"]\<close> is \<open>mypcm_nonels\<close> once line 378 has run; the caller's
  \<open>opt_variables\<close> and \<open>scan_variables\<close>, which are \<open>myopt\<close> and \<open>myscan\<close> when they
  were given (lines 292 and 297); the caller's \<open>new_geom_opt\<close>; and the caller's
  \<open>nbo_params\<close>, which nothing writes to.
\<close>

record outcome =
  built :: locals
  table_after :: cmirs_table
  opt_variables_after :: "dict option"
  scan_variables_after :: "dict option"
  new_geom_opt_after :: "dict option"
  nbo_params_after :: "dict option"

definition finish :: "cmirs_table \<Rightarrow> job_input \<Rightarrow> locals \<Rightarrow> outcome" where
  "finish tbl inp st =
     \<lparr>built = st,
      table_after =
        (case nonels_alias st of
           None \<Rightarrow> tbl
         | Some s \<Rightarrow>
             (case tbl s of
                None \<Rightarrow> tbl
              | Some e \<Rightarrow> tbl(s \<mapsto> e\<lparr>iso_001 := mypcm_nonels st\<rparr>))),
      opt_variables_after =
        (case opt_variables inp of None \<Rightarrow> None | Some d \<Rightarrow> Some (myopt st)),
      scan_variables_after =
        (case scan_variables inp of None \<Rightarrow> None | Some d \<Rightarrow> Some (myscan st)),
      new_geom_opt_after = self_new_geom_opt st,
      nbo_params_after = nbo_params inp\<rparr>"

text \<open>Lines 256-508: everything before the call of the superclass constructor.\<close>

definition QChemDictSet_body :: "normalizer \<Rightarrow> cmirs_table \<Rightarrow> job_input \<Rightarrow> raised + locals" where
  "QChemDictSet_body norm tbl inp =
     bind_err (stage_seed inp) (\<lambda>st.
     bind_err (stage_solvation tbl inp st) (\<lambda>st.
     bind_err (stage_features inp st) (\<lambda>st.
     bind_err (stage_overwrite norm tbl inp st) (\<lambda>st.
     stage_extra_scf_print inp st))))"

text \<open>
  The call of line 510, after a body that returned or raised \<open>r\<close>: the constructor
  raises what the body raised, or what the superclass constructor raises, or returns.
\<close>

definition call_super ::
  "superclass \<Rightarrow> cmirs_table \<Rightarrow> job_input \<Rightarrow> raised + locals \<Rightarrow> (error \<times> outcome) + outcome" where
  "call_super super tbl inp r =
     (case r of
        Inl (e, st) \<Rightarrow> Inl (e, finish tbl inp st)
      | Inr st \<Rightarrow>
          (case super (super_args inp st) of
             Some e \<Rightarrow> Inl (e, finish tbl inp st)
           | None \<Rightarrow> Inr (finish tbl inp st)))"

text \<open>
  \<open>QChemDictSet_init\<close> is \<open>__init__\<close> with everything it leaves behind, also when it
  raises. \<open>QChemDictSet\<close> is the value of the expression \<open>QChemDictSet(...)\<close>: the
  exception alone, or what a returning constructor leaves behind.
\<close>

definition QChemDictSet_init ::
  "superclass \<Rightarrow> normalizer \<Rightarrow> cmirs_table \<Rightarrow> job_input \<Rightarrow> (error \<times> outcome) + outcome" where
  "QChemDictSet_init super norm tbl inp = call_super super tbl inp (QChemDictSet_body norm tbl inp)"

definition exception_only :: "(error \<times> 'b) + 'a \<Rightarrow> error + 'a" where
  "exception_only r = (case r of Inl (e, left) \<Rightarrow> Inl e | Inr x \<Rightarrow> Inr x)"

definition QChemDictSet ::
  "superclass \<Rightarrow> normalizer \<Rightarrow> cmirs_table \<Rightarrow> job_input \<Rightarrow> error + outcome" where
  "QChemDictSet super norm tbl inp = exception_only (QChemDictSet_init super norm tbl inp)"

section \<open>\<open>QChemDictSet.write\<close> (named \<open>QChemDictSet_write\<close> here)\<close>

text \<open>\<open>os.path.dirname\<close> and \<open>os.path.join\<close> on POSIX paths.\<close>

definition dirname :: "string \<Rightarrow> string" where
  "dirname p =
     (let head = rev (dropWhile (\<lambda>c. c \<noteq> CHR ''/'') (rev p))
      in if head \<noteq> [] \<and> \<not> list_all (\<lambda>c. c = CHR ''/'') head
         then rev (dropWhile (\<lambda>c. c = CHR ''/'') (rev head))
         else head)"

definition path_join :: "string \<Rightarrow> string \<Rightarrow> string" where
  "path_join a b =
     (if b \<noteq> [] \<and> hd b = CHR ''/'' then b
      else if a = [] \<or> last a = CHR ''/'' then a @ b
      else a @ ''/'' @ b)"

text \<open>
  What \<open>write\<close> puts on disk, in order: the input file, whose text the superclass
  renders from the sections, and then the file \<open>solvent_data\<close> beside it, holding
  \<open>custom_smd\<close>. Writing \<open>None\<close> to a file raises.
\<close>

datatype file_content = Rendered locals | Text string

definition QChemDictSet_write :: "job_input \<Rightarrow> locals \<Rightarrow> string \<Rightarrow> error + (string \<times> file_content) list" where
  "QChemDictSet_write self secs input_file =
     (if smd_solvent self \<in> set [Some ''custom'', Some ''other''] then
        (case custom_smd self of
           None \<Rightarrow> Inl (TypeError ''write() argument must be str, not None'')
         | Some params \<Rightarrow>
             Inr [(input_file, Rendered secs),
                  (path_join (dirname input_file) ''solvent_data'', Text params)])
      else Inr [(input_file, Rendered secs)])"

section \<open>The key normaliser\<close>

text \<open>
  Modelled from the spec: \<open>lower_and_check_unique\<close> (pymatgen/io/qchem/utils.py) is not
  part of the source at hand. The spec gives its contract as \<open>normalize(mapping) -> mapping\<close>:
  it case-folds the keys and fails with a duplicate-key error if two input keys normalise
  to the same string. The theorems below hold for every normaliser; this one serves where
  a concrete one is needed.
\<close>

definition err_duplicate_key :: error where
  "err_duplicate_key = ValueError ''duplicate key''"

definition lower_and_check_unique :: normalizer where
  "lower_and_check_unique kvs =
     (if distinct (map (\<lambda>kv. lower (fst kv)) kvs)
      then Inr (map (\<lambda>kv. (lower (fst kv), snd kv)) kvs)
      else Inl err_duplicate_key)"

section \<open>The superclass constructor\<close>

text \<open>
  Modelled from the spec: \<open>QCInput.__init__\<close> (pymatgen/io/qchem/inputs.py) is not part
  of the source at hand. The spec gives the job-type tag as one of single-point, optimize,
  transition-state, force, frequency and pes-scan, which the six presets of the source
  pass as \<open>"sp"\<close>, \<open>"opt"\<close>, \<open>"ts"\<close>, \<open>"force"\<close>, \<open>"freq"\<close> and \<open>"pes_scan"\<close>; this
  constructor raises for any other \<open>job_type\<close> in the rem section. The theorems below
  hold for every superclass constructor; this one serves where a concrete one is needed.
\<close>

definition err_job_type :: error where
  "err_job_type = ValueError ''The rem dictionary must contain a valid job_type''"

definition QCInput_init :: superclass where
  "QCInput_init args =
     (if arg_rem args ''job_type''
           \<in> set [Some (PStr ''sp''), Some (PStr ''opt''), Some (PStr ''ts''),
                   Some (PStr ''force''), Some (PStr ''freq''), Some (PStr ''pes_scan'')]
      then None
      else Some err_job_type)"

section \<open>Vocabulary of the statements\<close>

text \<open>
  \<open>overrides_key norm ovr sec k\<close>: the override set \<open>ovr\<close> has a section named \<open>sec\<close>
  whose normalised dictionary holds the key \<open>k\<close>.
\<close>

definition overrides_key :: "normalizer \<Rightarrow> (string \<times> items) list \<Rightarrow> string \<Rightarrow> string \<Rightarrow> bool" where
  "overrides_key norm ovr sec k =
     list_ex (\<lambda>(s, sec_dict). s = sec \<and>
                (case norm sec_dict of Inl e \<Rightarrow> False | Inr temp \<Rightarrow> k \<in> fst ` set temp)) ovr"

text \<open>A section of the build's result; the empty dictionary when the build raised.\<close>

definition built_section :: "(locals \<Rightarrow> dict) \<Rightarrow> error + outcome \<Rightarrow> dict" where
  "built_section sec r = (case r of Inl e \<Rightarrow> Map.empty | Inr out \<Rightarrow> sec (built out))"

text \<open>
  For the idempotence of the override merge: what one pass of the merge does to one key
  of one section is one of three things, whatever the section held before: it leaves the
  entry alone, it stores a value, or it stores a value if the key is there (the re-merge of
  lines 474-476). \<open>then_act a b\<close> is \<open>a\<close> followed by \<open>b\<close>.
\<close>

datatype act = Keep | Put pyval | PutIfPresent pyval

fun apply_act :: "act \<Rightarrow> pyval option \<Rightarrow> pyval option" where
  "apply_act Keep x = x"
| "apply_act (Put v) x = Some v"
| "apply_act (PutIfPresent v) x = (case x of None \<Rightarrow> None | Some old \<Rightarrow> Some v)"

fun then_act :: "act \<Rightarrow> act \<Rightarrow> act" where
  "then_act a Keep = a"
| "then_act a (Put v) = Put v"
| "then_act Keep (PutIfPresent v) = PutIfPresent v"
| "then_act (Put w) (PutIfPresent v) = Put v"
| "then_act (PutIfPresent w) (PutIfPresent v) = PutIfPresent v"

fun assign_act :: "items \<Rightarrow> string \<Rightarrow> act" where
  "assign_act [] k = Keep"
| "assign_act ((k', v) # kvs) k = then_act (if k' = k then Put v else Keep) (assign_act kvs k)"

definition remerge_act :: "dict \<Rightarrow> string \<Rightarrow> act" where
  "remerge_act src k =
     (case src k of None \<Rightarrow> Keep | Some new \<Rightarrow> if truthy new then PutIfPresent new else Keep)"

text \<open>The twelve sections, and the dictionary each one is in the locals.\<close>

datatype section_id =
  Rem | Opt | Pcm | Solvent | Smx | Scan | Vdw | Plots | Svp | Pcm_nonels | Nbo | Geom_opt

fun look :: "section_id \<Rightarrow> locals \<Rightarrow> dict" where
  "look Rem st = myrem st"
| "look Opt st = myopt st"
| "look Pcm st = mypcm st"
| "look Solvent st = mysolvent st"
| "look Smx st = mysmx st"
| "look Scan st = myscan st"
| "look Vdw st = myvdw st"
| "look Plots st = myplots st"
| "look Svp st = mysvp st"
| "look Pcm_nonels st = mypcm_nonels st"
| "look Nbo st = (case mynbo st of None \<Rightarrow> Map.empty | Some d \<Rightarrow> d)"
| "look Geom_opt st = (case my_geom_opt st of None \<Rightarrow> Map.empty | Some d \<Rightarrow> d)"

text \<open>
  \<open>shape\<close>: two states agree on which optional sections exist and on the caller's
  \<open>new_geom_opt\<close>. \<open>dom_incl st u\<close>: every key of every section of \<open>st\<close> is a key of the
  same section of \<open>u\<close>. \<open>acts_rel st st' u u'\<close>: key by key, \<open>st'\<close> comes from \<open>st\<close> and
  \<open>u'\<close> from \<open>u\<close> by the same act. \<open>sim h\<close>: a step \<open>h\<close> that succeeds from \<open>st\<close> succeeds
  from every such \<open>u\<close>, with the same acts. \<open>same_sections\<close>: equal but for the warnings.
\<close>

definition shape :: "locals \<Rightarrow> locals \<Rightarrow> bool" where
  "shape st u \<longleftrightarrow>
     (mynbo st = None \<longleftrightarrow> mynbo u = None) \<and> (my_geom_opt st = None \<longleftrightarrow> my_geom_opt u = None)
     \<and> self_new_geom_opt st = self_new_geom_opt u \<and> nonels_alias st = nonels_alias u"

definition dom_incl :: "locals \<Rightarrow> locals \<Rightarrow> bool" where
  "dom_incl st u \<longleftrightarrow> (\<forall>c k. look c st k \<noteq> None \<longrightarrow> look c u k \<noteq> None)"

definition acts_rel :: "locals \<Rightarrow> locals \<Rightarrow> locals \<Rightarrow> locals \<Rightarrow> bool" where
  "acts_rel st st' u u' \<longleftrightarrow>
     (\<forall>c k. \<exists>a. look c st' k = apply_act a (look c st k)
                \<and> look c u' k = apply_act a (look c u k))"

definition sim :: "(locals \<Rightarrow> raised + locals) \<Rightarrow> bool" where
  "sim h \<longleftrightarrow>
     (\<forall>st st' u. h st = Inr st' \<and> shape st u \<and> dom_incl st u \<longrightarrow>
        shape st st' \<and> (\<exists>u'. h u = Inr u' \<and> shape st' u' \<and> acts_rel st st' u u'))"

definition same_sections :: "locals \<Rightarrow> locals \<Rightarrow> bool" where
  "same_sections a b \<longleftrightarrow> a\<lparr>warnings := []\<rparr> = b\<lparr>warnings := []\<rparr>"

text \<open>The build with the override merge run twice in a row, for the statement of C9.\<close>

definition QChemDictSet_merge_twice ::
  "superclass \<Rightarrow> normalizer \<Rightarrow> cmirs_table \<Rightarrow> job_input \<Rightarrow> error + outcome" where
  "QChemDictSet_merge_twice super norm tbl inp =
     exception_only (call_super super tbl inp
       (bind_err (stage_seed inp) (\<lambda>st.
        bind_err (stage_solvation tbl inp st) (\<lambda>st.
        bind_err (stage_features inp st) (\<lambda>st.
        bind_err (stage_overwrite norm tbl inp st) (\<lambda>st.
        bind_err (stage_overwrite norm tbl inp st) (\<lambda>st.
        stage_extra_scf_print inp st)))))))"

text \<open>A plain geometry optimisation with the defaults of the signature, for concrete runs.\<close>

definition example_input :: job_input where
  "example_input =
     \<lparr>job_type = ''opt'', basis_set = ''def2-tzvpd'', scf_algorithm = ''diis'', dft_rung = 4,
      pcm_dielectric = None, isosvp_dielectric = None, smd_solvent = None, cmirs_solvent = None,
      custom_smd = None, opt_variables = None, scan_variables = None, max_scf_cycles = 100,
      geom_opt_max_cycles = 200, plot_cubes = False, nbo_params = None, new_geom_opt = None,
      overwrite_inputs = None, vdw_mode = ''atomic'', extra_scf_print = False\<rparr>"

section \<open>Auxiliary facts\<close>

lemma bind_err_Inl [simp]: "bind_err (Inl e) f = Inl e"
  by (simp add: bind_err_def)

lemma bind_err_Inr [simp]: "bind_err (Inr a) f = f a"
  by (simp add: bind_err_def)

lemma bind_err_eq_Inr: "bind_err r f = Inr y \<longleftrightarrow> (\<exists>x. r = Inr x \<and> f x = Inr y)"
  by (cases r) simp_all

lemma in_state_Inl [simp]: "in_state st (Inl e) = Inl (e, st)"
  by (simp add: in_state_def)

lemma in_state_Inr [simp]: "in_state st (Inr x) = Inr x"
  by (simp add: in_state_def)

lemma in_state_eq_Inr [simp]: "in_state st r = Inr x \<longleftrightarrow> r = Inr x"
  by (cases r) simp_all

lemma assign_all_other: "k \<notin> fst ` set temp \<Longrightarrow> assign_all d temp k = d k"
  by (induction d temp rule: assign_all.induct) auto

lemma svp_items_frame:
  "svp_items tbl inp temp st = Inr st' \<Longrightarrow>
     myrem st' = myrem st \<and> mysmx st' = mysmx st \<and> my_geom_opt st' = my_geom_opt st
     \<and> mynbo st' = mynbo st \<and> self_new_geom_opt st' = self_new_geom_opt st"
proof (induction temp arbitrary: st)
  case Nil
  then show ?case by simp
next
  case (Cons kv temp)
  obtain k v where kv: "kv = (k, v)" by (cases kv)
  from Cons.prems obtain st1 where s1: "svp_item tbl inp k v st = Inr st1"
    and s2: "svp_items tbl inp temp st1 = Inr st'"
    by (auto simp: kv bind_err_eq_Inr)
  from s1 have "myrem st1 = myrem st \<and> mysmx st1 = mysmx st \<and> my_geom_opt st1 = my_geom_opt st
     \<and> mynbo st1 = mynbo st \<and> self_new_geom_opt st1 = self_new_geom_opt st"
    by (auto simp: svp_item_def svp_rhoiso_def svp_dielst_def svp_idefesr_def warn_def Let_def
          bind_err_eq_Inr split: if_splits option.splits)
  with Cons.IH[OF s2] show ?case by simp
qed


lemma overwrite_section_frame:
  assumes "overwrite_section norm tbl inp sec sec_dict st = Inr st'"
  shows "(sec \<noteq> ''rem'' \<longrightarrow> myrem st' = myrem st)"
    and "(sec = ''rem'' \<longrightarrow> (\<exists>temp. norm sec_dict = Inr temp \<and> myrem st' = assign_all (myrem st) temp))"
    and "(sec \<noteq> ''smx'' \<longrightarrow> mysmx st' = mysmx st)"
    and "(sec = ''smx'' \<longrightarrow> (\<exists>temp. norm sec_dict = Inr temp \<and> mysmx st' = assign_all (mysmx st) temp))"
    and "(sec \<noteq> ''geom_opt'' \<longrightarrow> my_geom_opt st' = my_geom_opt st)"
    and "(sec = ''geom_opt'' \<longrightarrow> (\<exists>temp d. norm sec_dict = Inr temp \<and> my_geom_opt st = Some d
            \<and> my_geom_opt st' = Some (assign_all d temp)))"
    and "(sec \<noteq> ''svp'' \<and> sec \<noteq> ''pcm_nonels'' \<longrightarrow> mypcm_nonels st' = mypcm_nonels st)"
    and "self_new_geom_opt st' = self_new_geom_opt st"
  using assms
  unfolding overwrite_section_def
  by (auto simp: bind_err_eq_Inr ow_rem_def ow_pcm_def ow_solvent_def ow_smx_def ow_scan_def
        ow_vdw_def ow_plots_def ow_nbo_def ow_geom_opt_def ow_opt_def ow_svp_def
        ow_pcm_nonels_def warn_def Let_def
        dest!: svp_items_frame split: if_splits option.splits)

lemma overwrite_sections_myrem:
  "overwrite_sections norm tbl inp ovr st = Inr st' \<Longrightarrow> \<not> overrides_key norm ovr ''rem'' k \<Longrightarrow>
     myrem st' k = myrem st k"
proof (induction ovr arbitrary: st)
  case Nil
  then show ?case by simp
next
  case (Cons p ovr)
  obtain sec sec_dict where p: "p = (sec, sec_dict)" by (cases p)
  from Cons.prems(1) obtain st1 where s1: "overwrite_section norm tbl inp sec sec_dict st = Inr st1"
    and s2: "overwrite_sections norm tbl inp ovr st1 = Inr st'"
    by (auto simp: p bind_err_eq_Inr)
  from Cons.prems(2) have no: "\<not> overrides_key norm ovr ''rem'' k"
    by (simp add: overrides_key_def p)
  have "myrem st1 k = myrem st k"
  proof (cases "sec = ''rem''")
    case True
    with overwrite_section_frame(2)[OF s1] obtain temp where t: "norm sec_dict = Inr temp"
      and r: "myrem st1 = assign_all (myrem st) temp" by blast
    from Cons.prems(2) t True have "k \<notin> fst ` set temp"
      by (simp add: overrides_key_def p)
    then show ?thesis by (simp add: r assign_all_other)
  next
    case False
    with overwrite_section_frame(1)[OF s1] show ?thesis by simp
  qed
  with Cons.IH[OF s2 no] show ?case by simp
qed

lemma stage_seed_method:
  assumes "stage_seed inp = Inr st"
  shows "myrem st ''method'' =
           Some (PStr (if dft_rung inp = 1 \<or> dft_rung inp = 2 then ''b3lyp''
                       else if dft_rung inp = 3 then ''wb97xd''
                       else if dft_rung inp = 4 then ''wb97xv'' else ''wb97mv''))"
    and "myrem st ''dft_D'' = (if dft_rung inp = 2 then Some (PStr ''D3_BJ'') else None)"
  using assms
  by (auto simp: stage_seed_def set_method_def set_geom_opt_max_cycles_def init_locals_def
        bind_err_eq_Inr split: if_splits)

lemma stage_seed_succeeds:
  "dft_rung inp \<in> {1..5} \<Longrightarrow> \<exists>st. stage_seed inp = Inr st"
proof -
  assume "dft_rung inp \<in> {1..5}"
  then have "dft_rung inp = 1 \<or> dft_rung inp = 2 \<or> dft_rung inp = 3 \<or> dft_rung inp = 4 \<or> dft_rung inp = 5"
    by auto
  then show ?thesis
    by (auto simp: stage_seed_def set_method_def)
qed

lemma stage_seed_fails:
  "dft_rung inp \<notin> {1..5} \<Longrightarrow> stage_seed inp = Inl (err_dft_rung, init_locals inp)"
  by (auto simp: stage_seed_def set_method_def)

lemma stage_solvation_myrem:
  assumes "stage_solvation tbl inp st = Inr st'"
    and "k \<notin> set [''solvent_method'', ''gen_scfman'', ''ideriv'']"
  shows "myrem st' k = myrem st k"
  using assms
  by (auto simp: stage_solvation_def check_solvent_def_def setup_pcm_def setup_isosvp_def
        setup_smd_def setup_cmirs_def bind_err_eq_Inr Let_def split: if_splits option.splits)

lemma stage_features_myrem:
  assumes "stage_features inp st = Inr st'"
    and "k \<notin> set [''plots'', ''make_cube_files'', ''nbo'', ''nbo_external'', ''geom_opt2'']"
  shows "myrem st' k = myrem st k"
  using assms
  by (auto simp: stage_features_def setup_plots_def setup_nbo_def setup_new_geom_opt_def
        bind_err_eq_Inr Let_def split: if_splits option.splits)

lemma stage_extra_scf_print_myrem:
  assumes "stage_extra_scf_print inp st = Inr st'"
    and "k \<notin> set [''scf_final_print'', ''scf_convergence'']"
  shows "myrem st' k = myrem st k"
  using assms
  by (auto simp: stage_extra_scf_print_def bind_err_eq_Inr Let_def split: if_splits option.splits)

lemma stage_overwrite_myrem:
  assumes "stage_overwrite norm tbl inp st = Inr st'"
    and "\<forall>ovr. overwrite_inputs inp = Some ovr \<longrightarrow> \<not> overrides_key norm ovr ''rem'' k"
  shows "myrem st' k = myrem st k"
  using assms
  by (auto simp: stage_overwrite_def split: option.splits dest: overwrite_sections_myrem)

lemma QChemDictSet_body_Inr:
  "QChemDictSet_body norm tbl inp = Inr st5 \<longleftrightarrow>
     (\<exists>st1 st2 st3 st4.
        stage_seed inp = Inr st1 \<and> stage_solvation tbl inp st1 = Inr st2
        \<and> stage_features inp st2 = Inr st3 \<and> stage_overwrite norm tbl inp st3 = Inr st4
        \<and> stage_extra_scf_print inp st4 = Inr st5)"
  by (auto simp: QChemDictSet_body_def bind_err_eq_Inr)

lemma call_super_Inr:
  "exception_only (call_super super tbl inp r) = Inr out \<longleftrightarrow>
     (\<exists>st. r = Inr st \<and> super (super_args inp st) = None \<and> out = finish tbl inp st)"
  by (auto simp: call_super_def exception_only_def split: sum.splits option.splits prod.splits)

lemma QChemDictSet_Inr:
  "QChemDictSet super norm tbl inp = Inr out \<longleftrightarrow>
     (\<exists>st1 st2 st3 st4 st5.
        stage_seed inp = Inr st1 \<and> stage_solvation tbl inp st1 = Inr st2
        \<and> stage_features inp st2 = Inr st3 \<and> stage_overwrite norm tbl inp st3 = Inr st4
        \<and> stage_extra_scf_print inp st4 = Inr st5 \<and> super (super_args inp st5) = None
        \<and> out = finish tbl inp st5)"
  unfolding QChemDictSet_def QChemDictSet_init_def call_super_Inr QChemDictSet_body_Inr
  by blast

lemma QChemDictSet_raises:
  assumes "QChemDictSet_body norm tbl inp = Inl (e, st)"
  shows "QChemDictSet_init super norm tbl inp = Inl (e, finish tbl inp st)"
    and "QChemDictSet super norm tbl inp = Inl e"
  using assms by (simp_all add: QChemDictSet_def QChemDictSet_init_def call_super_def exception_only_def)

lemma QChemDictSet_returns:
  assumes "QChemDictSet_body norm tbl inp = Inr st" "super (super_args inp st) = None"
  shows "QChemDictSet super norm tbl inp = Inr (finish tbl inp st)"
  using assms by (simp add: QChemDictSet_def QChemDictSet_init_def call_super_def exception_only_def)

lemma QChemDictSet_after_body:
  assumes "QChemDictSet_body norm tbl inp = Inr st"
  shows "QChemDictSet super norm tbl inp =
     (case super (super_args inp st) of None \<Rightarrow> Inr (finish tbl inp st) | Some e \<Rightarrow> Inl e)"
  using assms
  by (simp add: QChemDictSet_def QChemDictSet_init_def call_super_def exception_only_def
        split: option.splits)

lemma stage_seed_job_type:
  assumes "stage_seed inp = Inr st"
  shows "myrem st ''job_type'' = Some (PStr (job_type inp))"
  using assms
  by (auto simp: stage_seed_def set_method_def set_geom_opt_max_cycles_def init_locals_def
        bind_err_eq_Inr split: if_splits)

lemma QChemDictSet_body_job_type:
  assumes "QChemDictSet_body norm tbl inp = Inr st"
    and "\<forall>ovr. overwrite_inputs inp = Some ovr \<longrightarrow> \<not> overrides_key norm ovr ''rem'' ''job_type''"
  shows "myrem st ''job_type'' = Some (PStr (job_type inp))"
proof -
  from assms(1) obtain st1 st2 st3 st4 where
    s1: "stage_seed inp = Inr st1" and s2: "stage_solvation tbl inp st1 = Inr st2"
    and s3: "stage_features inp st2 = Inr st3" and s4: "stage_overwrite norm tbl inp st3 = Inr st4"
    and s5: "stage_extra_scf_print inp st4 = Inr st"
    by (auto simp: QChemDictSet_body_Inr)
  have "myrem st2 ''job_type'' = myrem st1 ''job_type''"
    by (rule stage_solvation_myrem[OF s2]) simp
  moreover have "myrem st3 ''job_type'' = myrem st2 ''job_type''"
    by (rule stage_features_myrem[OF s3]) simp
  moreover have "myrem st4 ''job_type'' = myrem st3 ''job_type''"
    by (rule stage_overwrite_myrem[OF s4 assms(2)])
  moreover have "myrem st ''job_type'' = myrem st4 ''job_type''"
    by (rule stage_extra_scf_print_myrem[OF s5]) simp
  ultimately show ?thesis using stage_seed_job_type[OF s1] by simp
qed

lemma QCInput_init_accepts:
  assumes "myrem st ''job_type'' = Some (PStr j)"
    and "j \<in> set [''sp'', ''opt'', ''ts'', ''force'', ''freq'', ''pes_scan'']"
  shows "QCInput_init (super_args inp st) = None"
  using assms by (auto simp: QCInput_init_def super_args_def)

lemma QChemDictSet_fails:
  "QChemDictSet_body norm tbl inp = Inl f \<Longrightarrow> \<exists>e. QChemDictSet super norm tbl inp = Inl e"
  by (cases f) (simp add: QChemDictSet_def QChemDictSet_init_def call_super_def exception_only_def)

lemma QChemDictSet_body_seed_fails:
  "dft_rung inp \<notin> {1..5} \<Longrightarrow>
     QChemDictSet_body norm tbl inp = Inl (err_dft_rung, init_locals inp)"
  by (simp add: QChemDictSet_body_def stage_seed_fails)

lemmas build_defs =
  QChemDictSet_def QChemDictSet_init_def QChemDictSet_body_def call_super_def exception_only_def
  super_args_def QCInput_init_def stage_seed_def set_method_def set_geom_opt_max_cycles_def init_locals_def
  stage_solvation_def check_solvent_def_def solvent_def_def setup_pcm_def setup_isosvp_def
  setup_smd_def setup_cmirs_def stage_features_def setup_plots_def setup_nbo_def
  setup_new_geom_opt_def stage_overwrite_def stage_extra_scf_print_def finish_def

lemma example_rung_2_builds: "\<exists>out. QChemDictSet QCInput_init lower_and_check_unique CMIRS_SETTINGS (example_input\<lparr>dft_rung := 2\<rparr>) = Inr out"
  by (simp add: build_defs example_input_def)

section \<open>The claims\<close>

text \<open>
  C7. A DFT tier outside 1..5 makes the build fail with the dft-rung \<open>ValueError\<close>,
  whatever else is asked for. For a tier in 1..5 the tier step sets \<open>method\<close> to the
  table entry (1 and 2: b3lyp, 3: wb97xd, 4: wb97xv, 5: wb97mv) and \<open>dft_D\<close> to D3_BJ
  for tier 2 only; and in every build that returns, these two entries of the rem
  section are still the table's, unless a rem override names one of the two keys.
\<close>

theorem C7_dft_rung_table:
  "(dft_rung inp \<notin> {1..5} \<longrightarrow> QChemDictSet super norm tbl inp = Inl err_dft_rung) \<and>
   (dft_rung inp \<in> {1..5} \<longrightarrow>
      (\<exists>st. stage_seed inp = Inr st
         \<and> myrem st ''method'' =
             Some (PStr (if dft_rung inp = 1 \<or> dft_rung inp = 2 then ''b3lyp''
                         else if dft_rung inp = 3 then ''wb97xd''
                         else if dft_rung inp = 4 then ''wb97xv'' else ''wb97mv''))
         \<and> myrem st ''dft_D'' = (if dft_rung inp = 2 then Some (PStr ''D3_BJ'') else None))) \<and>
   (QChemDictSet super norm tbl inp = Inr out
      \<and> (\<forall>ovr. overwrite_inputs inp = Some ovr \<longrightarrow>
             \<not> overrides_key norm ovr ''rem'' ''method'' \<and> \<not> overrides_key norm ovr ''rem'' ''dft_D'') \<longrightarrow>
      dft_rung inp \<in> {1..5}
      \<and> myrem (built out) ''method'' =
          Some (PStr (if dft_rung inp = 1 \<or> dft_rung inp = 2 then ''b3lyp''
                      else if dft_rung inp = 3 then ''wb97xd''
                      else if dft_rung inp = 4 then ''wb97xv'' else ''wb97mv''))
      \<and> myrem (built out) ''dft_D'' = (if dft_rung inp = 2 then Some (PStr ''D3_BJ'') else None))"
proof (intro conjI impI)
  assume "dft_rung inp \<notin> {1..5}"
  then show "QChemDictSet super norm tbl inp = Inl err_dft_rung"
    by (rule QChemDictSet_raises(2)[OF QChemDictSet_body_seed_fails])
next
  assume r: "dft_rung inp \<in> {1..5}"
  then obtain st where "stage_seed inp = Inr st" using stage_seed_succeeds by blast
  then show "\<exists>st. stage_seed inp = Inr st
         \<and> myrem st ''method'' =
             Some (PStr (if dft_rung inp = 1 \<or> dft_rung inp = 2 then ''b3lyp''
                         else if dft_rung inp = 3 then ''wb97xd''
                         else if dft_rung inp = 4 then ''wb97xv'' else ''wb97mv''))
         \<and> myrem st ''dft_D'' = (if dft_rung inp = 2 then Some (PStr ''D3_BJ'') else None)"
    using stage_seed_method by blast
next
  assume a: "QChemDictSet super norm tbl inp = Inr out
      \<and> (\<forall>ovr. overwrite_inputs inp = Some ovr \<longrightarrow>
             \<not> overrides_key norm ovr ''rem'' ''method'' \<and> \<not> overrides_key norm ovr ''rem'' ''dft_D'')"
  then obtain st1 st2 st3 st4 st5 where
    s1: "stage_seed inp = Inr st1" and s2: "stage_solvation tbl inp st1 = Inr st2"
    and s3: "stage_features inp st2 = Inr st3" and s4: "stage_overwrite norm tbl inp st3 = Inr st4"
    and s5: "stage_extra_scf_print inp st4 = Inr st5" and out: "out = finish tbl inp st5"
    by (auto simp: QChemDictSet_Inr)
  have keep: "myrem st5 k = myrem st1 k" if "k = ''method'' \<or> k = ''dft_D''" for k
  proof -
    have "myrem st2 k = myrem st1 k" using that by (auto intro!: stage_solvation_myrem[OF s2])
    moreover have "myrem st3 k = myrem st2 k" using that by (auto intro!: stage_features_myrem[OF s3])
    moreover have "myrem st4 k = myrem st3 k"
      using that a by (auto intro!: stage_overwrite_myrem[OF s4])
    moreover have "myrem st5 k = myrem st4 k"
      using that by (auto intro!: stage_extra_scf_print_myrem[OF s5])
    ultimately show ?thesis by simp
  qed
  show "dft_rung inp \<in> {1..5}"
    using s1 stage_seed_fails[of inp] by (cases "dft_rung inp \<in> {1..5}") auto
  show "myrem (built out) ''method'' =
          Some (PStr (if dft_rung inp = 1 \<or> dft_rung inp = 2 then ''b3lyp''
                      else if dft_rung inp = 3 then ''wb97xd''
                      else if dft_rung inp = 4 then ''wb97xv'' else ''wb97mv''))"
    using keep[of "''method''"] stage_seed_method(1)[OF s1] by (simp add: out finish_def)
  show "myrem (built out) ''dft_D'' = (if dft_rung inp = 2 then Some (PStr ''D3_BJ'') else None)"
    using keep[of "''dft_D''"] stage_seed_method(2)[OF s1] by (simp add: out finish_def)
qed

theorem C7_witness:
  "QChemDictSet QCInput_init lower_and_check_unique CMIRS_SETTINGS (example_input\<lparr>dft_rung := 0\<rparr>) = Inl err_dft_rung
   \<and> (\<exists>out. QChemDictSet QCInput_init lower_and_check_unique CMIRS_SETTINGS (example_input\<lparr>dft_rung := 2\<rparr>) = Inr out
        \<and> myrem (built out) ''method'' = Some (PStr ''b3lyp'')
        \<and> myrem (built out) ''dft_D'' = Some (PStr ''D3_BJ''))"
proof -
  have a: "QChemDictSet QCInput_init lower_and_check_unique CMIRS_SETTINGS (example_input\<lparr>dft_rung := 0\<rparr>) = Inl err_dft_rung"
    using C7_dft_rung_table[where inp = "example_input\<lparr>dft_rung := 0\<rparr>"
        and super = QCInput_init and norm = lower_and_check_unique and tbl = CMIRS_SETTINGS]
    by (simp add: example_input_def)
  obtain out where b: "QChemDictSet QCInput_init lower_and_check_unique CMIRS_SETTINGS (example_input\<lparr>dft_rung := 2\<rparr>) = Inr out"
    using example_rung_2_builds by blast
  have "myrem (built out) ''method'' = Some (PStr ''b3lyp'') \<and> myrem (built out) ''dft_D'' = Some (PStr ''D3_BJ'')"
    using C7_dft_rung_table[where inp = "example_input\<lparr>dft_rung := 2\<rparr>"
        and super = QCInput_init and norm = lower_and_check_unique and tbl = CMIRS_SETTINGS
        and out = out] b
    by (simp add: example_input_def)
  with a b show ?thesis by blast
qed

lemma solvent_def_ge_2:
  "2 \<le> solvent_def inp \<longleftrightarrow>
     (pcm_dielectric inp \<noteq> None \<and> isosvp_dielectric inp \<noteq> None)
   \<or> (pcm_dielectric inp \<noteq> None \<and> smd_solvent inp \<noteq> None)
   \<or> (pcm_dielectric inp \<noteq> None \<and> cmirs_solvent inp \<noteq> None)
   \<or> (isosvp_dielectric inp \<noteq> None \<and> smd_solvent inp \<noteq> None)
   \<or> (isosvp_dielectric inp \<noteq> None \<and> cmirs_solvent inp \<noteq> None)
   \<or> (smd_solvent inp \<noteq> None \<and> cmirs_solvent inp \<noteq> None)"
  by (auto simp: solvent_def_def)

lemma stage_seed_no_solvation:
  assumes "stage_seed inp = Inr st"
  shows "mypcm st = Map.empty \<and> mysolvent st = Map.empty \<and> mysmx st = Map.empty
     \<and> mysvp st = Map.empty \<and> mypcm_nonels st = Map.empty \<and> myrem st ''solvent_method'' = None"
  using assms
  by (auto simp: stage_seed_def set_method_def set_geom_opt_max_cycles_def init_locals_def
        bind_err_eq_Inr split: if_splits)

text \<open>
  C1. Whenever two of \<open>pcm_dielectric\<close>, \<open>isosvp_dielectric\<close>, \<open>smd_solvent\<close> and
  \<open>cmirs_solvent\<close> are not \<open>None\<close>, whichever two, the build fails. With a DFT tier in
  1..5 (the tier is the one check that runs earlier) it fails with the \<open>ValueError\<close> "Only
  one of PCM, ISOSVP, SMD, and CMIRSmay be used for solvation.", and when that exception is
  raised the locals are the ones the steps of lines 289-334 returned: the pcm, solvent,
  smx, svp and pcm_nonels sections are empty, the rem section has no \<open>solvent_method\<close>,
  and the module-level table is as the build found it.
\<close>

theorem C1_solvation_conflict:
  assumes two: "(pcm_dielectric inp \<noteq> None \<and> isosvp_dielectric inp \<noteq> None)
   \<or> (pcm_dielectric inp \<noteq> None \<and> smd_solvent inp \<noteq> None)
   \<or> (pcm_dielectric inp \<noteq> None \<and> cmirs_solvent inp \<noteq> None)
   \<or> (isosvp_dielectric inp \<noteq> None \<and> smd_solvent inp \<noteq> None)
   \<or> (isosvp_dielectric inp \<noteq> None \<and> cmirs_solvent inp \<noteq> None)
   \<or> (smd_solvent inp \<noteq> None \<and> cmirs_solvent inp \<noteq> None)"
  shows "(\<exists>e. QChemDictSet super norm tbl inp = Inl e)
     \<and> (dft_rung inp \<in> {1..5} \<longrightarrow>
          QChemDictSet super norm tbl inp = Inl err_solvation
          \<and> (\<exists>st. stage_seed inp = Inr st
                \<and> QChemDictSet_init super norm tbl inp = Inl (err_solvation, finish tbl inp st)
                \<and> built (finish tbl inp st) = st \<and> table_after (finish tbl inp st) = tbl
                \<and> mypcm st = Map.empty \<and> mysolvent st = Map.empty \<and> mysmx st = Map.empty
                \<and> mysvp st = Map.empty \<and> mypcm_nonels st = Map.empty
                \<and> myrem st ''solvent_method'' = None))"
proof -
  from two have c: "2 \<le> solvent_def inp" by (simp only: solvent_def_ge_2)
  have valid: "QChemDictSet super norm tbl inp = Inl err_solvation
          \<and> (\<exists>st. stage_seed inp = Inr st
                \<and> QChemDictSet_init super norm tbl inp = Inl (err_solvation, finish tbl inp st)
                \<and> built (finish tbl inp st) = st \<and> table_after (finish tbl inp st) = tbl
                \<and> mypcm st = Map.empty \<and> mysolvent st = Map.empty \<and> mysmx st = Map.empty
                \<and> mysvp st = Map.empty \<and> mypcm_nonels st = Map.empty
                \<and> myrem st ''solvent_method'' = None)"
    if rung: "dft_rung inp \<in> {1..5}"
  proof -
    from rung obtain st where s: "stage_seed inp = Inr st" using stage_seed_succeeds by blast
    from c have chk: "check_solvent_def inp st = Inl (err_solvation, st)"
      by (simp add: check_solvent_def_def)
    then have body: "QChemDictSet_body norm tbl inp = Inl (err_solvation, st)"
      by (simp add: QChemDictSet_body_def s stage_solvation_def)
    have fresh: "nonels_alias st = None"
      using s by (auto simp: stage_seed_def set_method_def set_geom_opt_max_cycles_def
          init_locals_def bind_err_eq_Inr split: if_splits)
    have "built (finish tbl inp st) = st" "table_after (finish tbl inp st) = tbl"
      by (simp_all add: finish_def fresh)
    with s QChemDictSet_raises[OF body, of super] stage_seed_no_solvation[OF s]
    show ?thesis by blast
  qed
  have "\<exists>e. QChemDictSet super norm tbl inp = Inl e"
  proof (cases "dft_rung inp \<in> {1..5}")
    case True
    with valid show ?thesis by blast
  next
    case False
    then show ?thesis
      using QChemDictSet_raises(2)[OF QChemDictSet_body_seed_fails] by blast
  qed
  with valid show ?thesis by blast
qed

theorem C1_witness:
  "QChemDictSet QCInput_init lower_and_check_unique CMIRS_SETTINGS
     (example_input\<lparr>isosvp_dielectric := Some ''78.39'', cmirs_solvent := Some ''water''\<rparr>)
   = Inl err_solvation
   \<and> (\<exists>left. QChemDictSet_init QCInput_init lower_and_check_unique CMIRS_SETTINGS
         (example_input\<lparr>isosvp_dielectric := Some ''78.39'', cmirs_solvent := Some ''water''\<rparr>)
        = Inl (err_solvation, left)
        \<and> table_after left = CMIRS_SETTINGS
        \<and> mypcm (built left) = Map.empty \<and> mysolvent (built left) = Map.empty
        \<and> mysmx (built left) = Map.empty \<and> mysvp (built left) = Map.empty
        \<and> mypcm_nonels (built left) = Map.empty
        \<and> myrem (built left) ''solvent_method'' = None)"
proof -
  let ?inp = "example_input\<lparr>isosvp_dielectric := Some ''78.39'', cmirs_solvent := Some ''water''\<rparr>"
  have two: "(pcm_dielectric ?inp \<noteq> None \<and> isosvp_dielectric ?inp \<noteq> None)
   \<or> (pcm_dielectric ?inp \<noteq> None \<and> smd_solvent ?inp \<noteq> None)
   \<or> (pcm_dielectric ?inp \<noteq> None \<and> cmirs_solvent ?inp \<noteq> None)
   \<or> (isosvp_dielectric ?inp \<noteq> None \<and> smd_solvent ?inp \<noteq> None)
   \<or> (isosvp_dielectric ?inp \<noteq> None \<and> cmirs_solvent ?inp \<noteq> None)
   \<or> (smd_solvent ?inp \<noteq> None \<and> cmirs_solvent ?inp \<noteq> None)"
    by simp
  have rung: "dft_rung ?inp \<in> {1..5}" by (simp add: example_input_def)
  from C1_solvation_conflict[OF two, of QCInput_init lower_and_check_unique CMIRS_SETTINGS] rung
  obtain st where
    a: "QChemDictSet QCInput_init lower_and_check_unique CMIRS_SETTINGS ?inp = Inl err_solvation"
    and b: "QChemDictSet_init QCInput_init lower_and_check_unique CMIRS_SETTINGS ?inp
        = Inl (err_solvation, finish CMIRS_SETTINGS ?inp st)"
    and c: "built (finish CMIRS_SETTINGS ?inp st) = st"
       "table_after (finish CMIRS_SETTINGS ?inp st) = CMIRS_SETTINGS"
       "mypcm st = Map.empty" "mysolvent st = Map.empty" "mysmx st = Map.empty"
       "mysvp st = Map.empty" "mypcm_nonels st = Map.empty" "myrem st ''solvent_method'' = None"
    by blast
  from a b c show ?thesis by auto
qed

lemma CMIRS_SETTINGS_unsupported:
  "s \<notin> set [''water'', ''benzene'', ''cyclohexane'', ''dimethyl sulfoxide'', ''acetonitrile'']
     \<Longrightarrow> CMIRS_SETTINGS s = None"
  by (simp add: CMIRS_SETTINGS_def)

text \<open>
  C4, as the claim states it, fails: with \<open>cmirs_solvent="toluene"\<close> the build ends in the
  \<open>KeyError\<close> of the table lookup of line 375, not in an error of its own.
\<close>

theorem C4_counterexample:
  "QChemDictSet QCInput_init lower_and_check_unique CMIRS_SETTINGS
     (example_input\<lparr>cmirs_solvent := Some ''toluene''\<rparr>) = Inl (KeyError ''toluene'')"
  by (simp add: build_defs example_input_def CMIRS_SETTINGS_def Let_def)

text \<open>
  C4, amended. A build with \<open>cmirs_solvent\<close> outside the five names of the table always
  fails; when the DFT tier is in 1..5 and no other solvation model is selected, it fails with
  the \<open>KeyError\<close> of the table lookup, carrying the solvent name.
\<close>

theorem C4_unsupported_solvent_KeyError:
  assumes s: "cmirs_solvent inp = Some s"
    and un: "s \<notin> set [''water'', ''benzene'', ''cyclohexane'', ''dimethyl sulfoxide'', ''acetonitrile'']"
  shows "(\<exists>e. QChemDictSet super norm CMIRS_SETTINGS inp = Inl e)
     \<and> (dft_rung inp \<in> {1..5} \<and> pcm_dielectric inp = None \<and> isosvp_dielectric inp = None
          \<and> smd_solvent inp = None \<longrightarrow>
        QChemDictSet super norm CMIRS_SETTINGS inp = Inl (KeyError s))"
proof -
  have none: "CMIRS_SETTINGS s = None" using un by (rule CMIRS_SETTINGS_unsupported)
  have cm: "\<exists>f. setup_cmirs CMIRS_SETTINGS inp st = Inl f" for st
    by (simp add: setup_cmirs_def s none Let_def)
  have sol: "\<exists>f. stage_solvation CMIRS_SETTINGS inp st = Inl f" for st
  proof (cases "check_solvent_def inp st")
    case (Inl f)
    then show ?thesis by (simp add: stage_solvation_def)
  next
    case (Inr st1)
    show ?thesis
    proof (cases "setup_smd inp (setup_isosvp inp (setup_pcm inp st1))")
      case (Inl f)
      then show ?thesis by (simp add: stage_solvation_def Inr)
    next
      case (Inr st2)
      with cm[of st2] \<open>check_solvent_def inp st = Inr st1\<close> show ?thesis
        by (auto simp: stage_solvation_def)
    qed
  qed
  have "\<exists>f. QChemDictSet_body norm CMIRS_SETTINGS inp = Inl f"
  proof (cases "stage_seed inp")
    case (Inl f)
    then show ?thesis by (simp add: QChemDictSet_body_def)
  next
    case (Inr st)
    with sol[of st] show ?thesis by (auto simp: QChemDictSet_body_def)
  qed
  then have fails: "\<exists>e. QChemDictSet super norm CMIRS_SETTINGS inp = Inl e"
    using QChemDictSet_fails by blast
  have key: "QChemDictSet super norm CMIRS_SETTINGS inp = Inl (KeyError s)"
    if "dft_rung inp \<in> {1..5}" "pcm_dielectric inp = None" "isosvp_dielectric inp = None"
      "smd_solvent inp = None"
  proof -
    from that(1) obtain st where st: "stage_seed inp = Inr st" using stage_seed_succeeds by blast
    have "\<exists>st'. stage_solvation CMIRS_SETTINGS inp st = Inl (KeyError s, st')"
      using that
      by (simp add: stage_solvation_def check_solvent_def_def solvent_def_def setup_pcm_def
            setup_isosvp_def setup_smd_def setup_cmirs_def s none Let_def)
    then obtain st' where "QChemDictSet_body norm CMIRS_SETTINGS inp = Inl (KeyError s, st')"
      by (auto simp: QChemDictSet_body_def st)
    then show ?thesis by (rule QChemDictSet_raises(2))
  qed
  from fails key show ?thesis by blast
qed

theorem C4_witness:
  "QChemDictSet QCInput_init lower_and_check_unique CMIRS_SETTINGS
     (example_input\<lparr>cmirs_solvent := Some ''toluene'', plot_cubes := True\<rparr>) = Inl (KeyError ''toluene'')"
  using C4_unsupported_solvent_KeyError[where inp = "example_input\<lparr>cmirs_solvent := Some ''toluene'',
      plot_cubes := True\<rparr>" and s = "''toluene''" and norm = lower_and_check_unique
      and super = QCInput_init]
  by (simp add: example_input_def)

lemma ow_solvent_warns:
  assumes "norm sec_dict = Inr temp" "myrem st ''solvent_method'' = Some m" "m \<noteq> PStr ''pcm''"
  shows "ow_solvent norm ''solvent'' sec_dict st
     = Inr (st\<lparr>warnings := warnings st @ [warn_solvent],
               mysolvent := assign_all (mysolvent st) temp\<rparr>)"
  using assms by (simp add: ow_solvent_def rem_solvent_method_def warn_def Let_def)

text \<open>
  C6. When \<open>solvent_method\<close> is set and is not \<open>"pcm"\<close>, the solvent override warns and
  is merged (\<open>ow_solvent_warns\<close>). With no solvation model selected, though, line 424 reads
  \<open>myrem["solvent_method"]\<close>, which is not there: a build whose overrides hold a solvent
  section then raises \<open>KeyError\<close> instead of warning and going on.
\<close>

theorem C6_solvent_override_KeyError:
  "QChemDictSet QCInput_init lower_and_check_unique CMIRS_SETTINGS
     (example_input\<lparr>overwrite_inputs := Some [(''solvent'', [(''dielectric'', PStr ''10.0'')])]\<rparr>)
   = Inl (KeyError ''solvent_method'')"
  by (simp add: build_defs example_input_def overwrite_section_def ow_rem_def ow_pcm_def
        ow_solvent_def rem_solvent_method_def lower_and_check_unique_def)

lemma overwrite_sections_mysmx:
  "overwrite_sections norm tbl inp ovr st = Inr st' \<Longrightarrow> \<not> overrides_key norm ovr ''smx'' k \<Longrightarrow>
     mysmx st' k = mysmx st k"
proof (induction ovr arbitrary: st)
  case Nil
  then show ?case by simp
next
  case (Cons p ovr)
  obtain sec sec_dict where p: "p = (sec, sec_dict)" by (cases p)
  from Cons.prems(1) obtain st1 where s1: "overwrite_section norm tbl inp sec sec_dict st = Inr st1"
    and s2: "overwrite_sections norm tbl inp ovr st1 = Inr st'"
    by (auto simp: p bind_err_eq_Inr)
  from Cons.prems(2) have no: "\<not> overrides_key norm ovr ''smx'' k"
    by (simp add: overrides_key_def p)
  have "mysmx st1 k = mysmx st k"
  proof (cases "sec = ''smx''")
    case True
    with overwrite_section_frame(4)[OF s1] obtain temp where t: "norm sec_dict = Inr temp"
      and r: "mysmx st1 = assign_all (mysmx st) temp" by blast
    from Cons.prems(2) t True have "k \<notin> fst ` set temp"
      by (simp add: overrides_key_def p)
    then show ?thesis by (simp add: r assign_all_other)
  next
    case False
    with overwrite_section_frame(3)[OF s1] show ?thesis by simp
  qed
  with Cons.IH[OF s2 no] show ?case by simp
qed

lemma stage_features_keeps:
  assumes "stage_features inp st = Inr st'"
  shows "mysmx st' = mysmx st \<and> mypcm_nonels st' = mypcm_nonels st"
  using assms
  by (auto simp: stage_features_def setup_plots_def setup_nbo_def setup_new_geom_opt_def
        bind_err_eq_Inr Let_def split: if_splits option.splits)

lemma stage_extra_scf_print_keeps:
  assumes "stage_extra_scf_print inp st = Inr st'"
  shows "mysmx st' = mysmx st \<and> mypcm_nonels st' = mypcm_nonels st
     \<and> my_geom_opt st' = my_geom_opt st \<and> self_new_geom_opt st' = self_new_geom_opt st"
  using assms
  by (auto simp: stage_extra_scf_print_def bind_err_eq_Inr Let_def split: if_splits option.splits)

lemma stage_solvation_smd_only:
  assumes "smd_solvent inp = Some s" "pcm_dielectric inp = None" "isosvp_dielectric inp = None"
    "cmirs_solvent inp = None"
  shows "stage_solvation tbl inp st = setup_smd inp st"
  using assms
  by (simp add: stage_solvation_def check_solvent_def_def solvent_def_def setup_pcm_def
        setup_isosvp_def setup_cmirs_def bind_err_def split: sum.splits)

lemma plain_rest_succeeds:
  assumes "nbo_params inp = None" "new_geom_opt inp = None" "overwrite_inputs inp = None"
    and "self_new_geom_opt st = new_geom_opt inp" and "myrem st ''scf_convergence'' = None"
  shows "\<exists>st'. bind_err (stage_features inp st) (\<lambda>st.
           bind_err (stage_overwrite norm tbl inp st) (\<lambda>st.
           stage_extra_scf_print inp st)) = Inr st'"
  using assms
  by (auto simp: stage_features_def setup_plots_def setup_nbo_def setup_new_geom_opt_def
        stage_overwrite_def stage_extra_scf_print_def Let_def init_locals_def)

text \<open>
  C8. Take a build with \<open>smd_solvent="custom"\<close>, a DFT tier in 1..5 and no other solvation
  model (so that the two earlier checks pass). With \<open>custom_smd=None\<close> it fails with the
  \<open>ValueError\<close> "A user-defined SMD requires passing custom_smd, ...". With a
  \<open>custom_smd\<close> string the SMD step passes and sets the smx keyword \<open>solvent\<close> to
  \<open>"other"\<close>. When no NBO, new optimizer or override is asked for, the body of the
  constructor reaches the call of the superclass constructor (line 510) with that keyword,
  and the build returns if the superclass constructor does, and raises what it raises
  otherwise. And whenever the build returns, the keyword is still \<open>"other"\<close>, unless an
  smx override names it.
\<close>

theorem C8_custom_smd:
  assumes smd: "smd_solvent inp = Some ''custom''"
    and rung: "dft_rung inp \<in> {1..5}"
    and only: "pcm_dielectric inp = None" "isosvp_dielectric inp = None" "cmirs_solvent inp = None"
  shows "(custom_smd inp = None \<longrightarrow> QChemDictSet super norm tbl inp = Inl err_custom_smd)
     \<and> (custom_smd inp \<noteq> None \<longrightarrow>
          (\<exists>st st'. stage_seed inp = Inr st \<and> stage_solvation tbl inp st = Inr st'
              \<and> mysmx st' ''solvent'' = Some (PStr ''other''))
          \<and> (nbo_params inp = None \<and> new_geom_opt inp = None \<and> overwrite_inputs inp = None
                \<longrightarrow> (\<exists>st5. QChemDictSet_body norm tbl inp = Inr st5
                       \<and> mysmx st5 ''solvent'' = Some (PStr ''other'')
                       \<and> QChemDictSet super norm tbl inp
                           = (case super (super_args inp st5) of
                                None \<Rightarrow> Inr (finish tbl inp st5) | Some e \<Rightarrow> Inl e)))
          \<and> (\<forall>out. QChemDictSet super norm tbl inp = Inr out
                \<and> (\<forall>ovr. overwrite_inputs inp = Some ovr \<longrightarrow>
                       \<not> overrides_key norm ovr ''smx'' ''solvent'')
                \<longrightarrow> mysmx (built out) ''solvent'' = Some (PStr ''other'')))"
proof -
  from rung obtain st where st: "stage_seed inp = Inr st" using stage_seed_succeeds by blast
  have sol: "stage_solvation tbl inp st0 = setup_smd inp st0" for st0
    using smd only by (rule stage_solvation_smd_only)
  have a: "QChemDictSet super norm tbl inp = Inl err_custom_smd" if "custom_smd inp = None"
  proof -
    from that have "\<exists>st'. QChemDictSet_body norm tbl inp = Inl (err_custom_smd, st')"
      by (simp add: QChemDictSet_body_def st sol setup_smd_def smd Let_def)
    then show ?thesis using QChemDictSet_raises(2) by blast
  qed
  have smx: "mysmx st' ''solvent'' = Some (PStr ''other'')"
    if "stage_solvation tbl inp st0 = Inr st'" for st0 st'
    using that by (auto simp: sol setup_smd_def smd Let_def split: if_splits)
  {
    assume c: "custom_smd inp \<noteq> None"
    then obtain st' where st': "stage_solvation tbl inp st = Inr st'"
      by (auto simp: sol setup_smd_def smd Let_def)
    have b1: "\<exists>st st'. stage_seed inp = Inr st \<and> stage_solvation tbl inp st = Inr st'
              \<and> mysmx st' ''solvent'' = Some (PStr ''other'')"
      using st st' smx by blast
    have new: "self_new_geom_opt st' = new_geom_opt inp"
      using st st' only
      by (auto simp: sol setup_smd_def smd Let_def stage_seed_def set_method_def
            set_geom_opt_max_cycles_def init_locals_def bind_err_eq_Inr split: if_splits)
    have conv: "myrem st' ''scf_convergence'' = None"
      using stage_solvation_myrem[OF st', of "''scf_convergence''"] st
      by (auto simp: stage_seed_def set_method_def set_geom_opt_max_cycles_def init_locals_def
            bind_err_eq_Inr split: if_splits)
    have b2: "\<exists>st5. QChemDictSet_body norm tbl inp = Inr st5
                       \<and> mysmx st5 ''solvent'' = Some (PStr ''other'')
                       \<and> QChemDictSet super norm tbl inp
                           = (case super (super_args inp st5) of
                                None \<Rightarrow> Inr (finish tbl inp st5) | Some e \<Rightarrow> Inl e)"
      if none: "nbo_params inp = None \<and> new_geom_opt inp = None \<and> overwrite_inputs inp = None"
    proof -
      from none new conv plain_rest_succeeds[of inp st' norm tbl] obtain st''
        where r: "bind_err (stage_features inp st') (\<lambda>st.
           bind_err (stage_overwrite norm tbl inp st) (\<lambda>st.
           stage_extra_scf_print inp st)) = Inr st''" by blast
      then have body: "QChemDictSet_body norm tbl inp = Inr st''"
        by (simp add: QChemDictSet_body_def st st')
      from r obtain st3 st4 where s3: "stage_features inp st' = Inr st3"
        and s4: "stage_overwrite norm tbl inp st3 = Inr st4"
        and s5: "stage_extra_scf_print inp st4 = Inr st''"
        by (auto simp: bind_err_eq_Inr)
      from s4 none have "st4 = st3" by (simp add: stage_overwrite_def)
      with smx[OF st'] stage_features_keeps[OF s3] stage_extra_scf_print_keeps[OF s5]
      have "mysmx st'' ''solvent'' = Some (PStr ''other'')" by simp
      with body QChemDictSet_after_body[OF body, of super] show ?thesis by blast
    qed
    have b3: "mysmx (built out) ''solvent'' = Some (PStr ''other'')"
      if h: "QChemDictSet super norm tbl inp = Inr out
                \<and> (\<forall>ovr. overwrite_inputs inp = Some ovr \<longrightarrow>
                       \<not> overrides_key norm ovr ''smx'' ''solvent'')" for out
    proof -
      from h obtain st1 st2 st3 st4 st5 where
        s1: "stage_seed inp = Inr st1" and s2: "stage_solvation tbl inp st1 = Inr st2"
        and s3: "stage_features inp st2 = Inr st3" and s4: "stage_overwrite norm tbl inp st3 = Inr st4"
        and s5: "stage_extra_scf_print inp st4 = Inr st5" and out: "out = finish tbl inp st5"
        by (auto simp: QChemDictSet_Inr)
      have "mysmx st4 ''solvent'' = mysmx st3 ''solvent''"
        using s4 h by (auto simp: stage_overwrite_def split: option.splits
            dest: overwrite_sections_mysmx)
      with smx[OF s2] stage_features_keeps[OF s3] stage_extra_scf_print_keeps[OF s5]
      show ?thesis by (simp add: out finish_def)
    qed
    note b1 b2 b3
  }
  with a show ?thesis by blast
qed

theorem C8_witness:
  "QChemDictSet QCInput_init lower_and_check_unique CMIRS_SETTINGS
      (example_input\<lparr>smd_solvent := Some ''custom''\<rparr>) = Inl err_custom_smd
   \<and> (\<exists>out. QChemDictSet QCInput_init lower_and_check_unique CMIRS_SETTINGS
        (example_input\<lparr>smd_solvent := Some ''custom'',
           custom_smd := Some ''18.5,1.415,0.00,0.735,20.2,0.00,0.00''\<rparr>) = Inr out
         \<and> mysmx (built out) ''solvent'' = Some (PStr ''other''))"
proof -
  let ?a = "example_input\<lparr>smd_solvent := Some ''custom''\<rparr>"
  let ?b = "example_input\<lparr>smd_solvent := Some ''custom'',
           custom_smd := Some ''18.5,1.415,0.00,0.735,20.2,0.00,0.00''\<rparr>"
  have a: "QChemDictSet QCInput_init lower_and_check_unique CMIRS_SETTINGS ?a = Inl err_custom_smd"
    using C8_custom_smd[where inp = ?a and super = QCInput_init
        and norm = lower_and_check_unique and tbl = CMIRS_SETTINGS]
    by (simp add: example_input_def)
  have hyp: "smd_solvent ?b = Some ''custom''" "dft_rung ?b \<in> {1..5}" "pcm_dielectric ?b = None"
    "isosvp_dielectric ?b = None" "cmirs_solvent ?b = None" "custom_smd ?b \<noteq> None"
    "nbo_params ?b = None \<and> new_geom_opt ?b = None \<and> overwrite_inputs ?b = None"
    by (simp_all add: example_input_def)
  from C8_custom_smd[OF hyp(1-5), of QCInput_init lower_and_check_unique CMIRS_SETTINGS] hyp(6,7)
  obtain st5 where body: "QChemDictSet_body lower_and_check_unique CMIRS_SETTINGS ?b = Inr st5"
    and smx: "mysmx st5 ''solvent'' = Some (PStr ''other'')"
    and res: "QChemDictSet QCInput_init lower_and_check_unique CMIRS_SETTINGS ?b
        = (case QCInput_init (super_args ?b st5) of
             None \<Rightarrow> Inr (finish CMIRS_SETTINGS ?b st5) | Some e \<Rightarrow> Inl e)"
    by blast
  have "myrem st5 ''job_type'' = Some (PStr (job_type ?b))"
    by (rule QChemDictSet_body_job_type[OF body]) (simp add: example_input_def)
  then have "QCInput_init (super_args ?b st5) = None"
    by (rule QCInput_init_accepts) (simp add: example_input_def)
  with res have "QChemDictSet QCInput_init lower_and_check_unique CMIRS_SETTINGS ?b
      = Inr (finish CMIRS_SETTINGS ?b st5)" by simp
  moreover have "mysmx (built (finish CMIRS_SETTINGS ?b st5)) ''solvent'' = Some (PStr ''other'')"
    using smx by (simp add: finish_def)
  ultimately show ?thesis using a by blast
qed

lemma svp_item_smd_solvent:
  "svp_item tbl (inp\<lparr>smd_solvent := x\<rparr>) k v st = svp_item tbl inp k v st"
  by (simp add: svp_item_def svp_rhoiso_def svp_idefesr_def cong: if_cong)

lemma svp_items_smd_solvent:
  "svp_items tbl (inp\<lparr>smd_solvent := x\<rparr>) temp st = svp_items tbl inp temp st"
proof (induction temp arbitrary: st)
  case Nil
  show ?case by simp
next
  case (Cons kv temp)
  obtain k v where kv: "kv = (k, v)" by (cases kv)
  show ?case
    by (cases "svp_item tbl inp k v st") (simp_all add: kv svp_item_smd_solvent Cons.IH)
qed

lemma overwrite_section_smd_solvent:
  "overwrite_section norm tbl (inp\<lparr>smd_solvent := x\<rparr>) sec sec_dict st
     = overwrite_section norm tbl inp sec sec_dict st"
  by (simp add: overwrite_section_def ow_svp_def svp_items_smd_solvent cong: if_cong)

lemma overwrite_sections_smd_solvent:
  "overwrite_sections norm tbl (inp\<lparr>smd_solvent := x\<rparr>) ovr st
     = overwrite_sections norm tbl inp ovr st"
proof (induction ovr arbitrary: st)
  case Nil
  show ?case by simp
next
  case (Cons p ovr)
  obtain sec sec_dict where p: "p = (sec, sec_dict)" by (cases p)
  show ?case
    by (cases "overwrite_section norm tbl inp sec sec_dict st")
       (simp_all add: p overwrite_section_smd_solvent Cons.IH)
qed

lemma setup_smd_other_custom:
  "setup_smd (inp\<lparr>smd_solvent := Some ''other''\<rparr>) st
     = setup_smd (inp\<lparr>smd_solvent := Some ''custom''\<rparr>) st"
  by (simp add: setup_smd_def)

lemma QChemDictSet_other_custom:
  "QChemDictSet super norm tbl (inp\<lparr>smd_solvent := Some ''other''\<rparr>)
     = QChemDictSet super norm tbl (inp\<lparr>smd_solvent := Some ''custom''\<rparr>)"
proof -
  have seed: "stage_seed (inp\<lparr>smd_solvent := x\<rparr>) = stage_seed inp" for x
    by (simp add: stage_seed_def set_method_def set_geom_opt_max_cycles_def init_locals_def)
  have sol: "stage_solvation tbl (inp\<lparr>smd_solvent := Some ''other''\<rparr>) st
     = stage_solvation tbl (inp\<lparr>smd_solvent := Some ''custom''\<rparr>) st" for st
    by (simp add: stage_solvation_def check_solvent_def_def solvent_def_def setup_pcm_def
          setup_isosvp_def setup_cmirs_def setup_smd_other_custom)
  have plots: "setup_plots (inp\<lparr>smd_solvent := x\<rparr>) st = setup_plots inp st" for x st
    by (simp add: setup_plots_def)
  have nbo: "setup_nbo (inp\<lparr>smd_solvent := x\<rparr>) st = setup_nbo inp st" for x st
    by (simp add: setup_nbo_def)
  have geo: "setup_new_geom_opt (inp\<lparr>smd_solvent := x\<rparr>) = setup_new_geom_opt inp" for x
    by (rule ext) (simp add: setup_new_geom_opt_def Let_def split: option.splits)
  have feat: "stage_features (inp\<lparr>smd_solvent := x\<rparr>) st = stage_features inp st" for x st
    by (simp add: stage_features_def plots nbo geo)
  have ovw: "stage_overwrite norm tbl (inp\<lparr>smd_solvent := x\<rparr>) = stage_overwrite norm tbl inp"
    for x
    by (rule ext) (simp add: stage_overwrite_def overwrite_sections_smd_solvent split: option.splits)
  have extra: "stage_extra_scf_print (inp\<lparr>smd_solvent := x\<rparr>) = stage_extra_scf_print inp"
    for x
    by (rule ext) (simp add: stage_extra_scf_print_def)
  have fin: "finish tbl (inp\<lparr>smd_solvent := x\<rparr>) st = finish tbl inp st" for x st
    by (simp add: finish_def)
  have args: "super_args (inp\<lparr>smd_solvent := x\<rparr>) st = super_args inp st" for x st
    by (simp add: super_args_def)
  have call: "call_super super tbl (inp\<lparr>smd_solvent := x\<rparr>) r = call_super super tbl inp r"
    for x r
    by (simp add: call_super_def fin args split: sum.splits option.splits prod.splits)
  have body: "QChemDictSet_body norm tbl (inp\<lparr>smd_solvent := Some ''other''\<rparr>)
      = QChemDictSet_body norm tbl (inp\<lparr>smd_solvent := Some ''custom''\<rparr>)"
    by (simp add: QChemDictSet_body_def seed sol feat ovw extra)
  show ?thesis
    by (simp add: QChemDictSet_def QChemDictSet_init_def body call)
qed

lemma path_example: "path_join (dirname ''/calc/mol.qin'') ''solvent_data'' = ''/calc/solvent_data''"
  by (simp add: path_join_def dirname_def)

text \<open>
  C10. \<open>smd_solvent="other"\<close> is treated as \<open>"custom"\<close> is: the two builds have the same
  outcome for every input, so with \<open>custom_smd=None\<close> (a DFT tier in 1..5 and no other
  solvation model, so that the SMD check is reached) the build for \<open>"other"\<close> fails with
  the same custom-SMD \<open>ValueError\<close>; and \<open>write\<close> does for \<open>"other"\<close> what it does for
  \<open>"custom"\<close>, writing \<open>custom_smd\<close> to the file \<open>solvent_data\<close> beside the input file.
\<close>

theorem C10_other_like_custom:
  "QChemDictSet super norm tbl (inp\<lparr>smd_solvent := Some ''other''\<rparr>)
     = QChemDictSet super norm tbl (inp\<lparr>smd_solvent := Some ''custom''\<rparr>)
   \<and> (dft_rung inp \<in> {1..5} \<and> pcm_dielectric inp = None \<and> isosvp_dielectric inp = None
        \<and> cmirs_solvent inp = None \<and> custom_smd inp = None \<longrightarrow>
      QChemDictSet super norm tbl (inp\<lparr>smd_solvent := Some ''other''\<rparr>) = Inl err_custom_smd)
   \<and> QChemDictSet_write (inp\<lparr>smd_solvent := Some ''other''\<rparr>) secs input_file
       = QChemDictSet_write (inp\<lparr>smd_solvent := Some ''custom''\<rparr>) secs input_file
   \<and> (custom_smd inp = Some params \<longrightarrow>
      QChemDictSet_write (inp\<lparr>smd_solvent := Some ''other''\<rparr>) secs input_file
        = Inr [(input_file, Rendered secs),
               (path_join (dirname input_file) ''solvent_data'', Text params)])"
proof (intro conjI impI)
  show "QChemDictSet super norm tbl (inp\<lparr>smd_solvent := Some ''other''\<rparr>)
     = QChemDictSet super norm tbl (inp\<lparr>smd_solvent := Some ''custom''\<rparr>)"
    by (rule QChemDictSet_other_custom)
next
  assume h: "dft_rung inp \<in> {1..5} \<and> pcm_dielectric inp = None \<and> isosvp_dielectric inp = None
        \<and> cmirs_solvent inp = None \<and> custom_smd inp = None"
  let ?inp = "inp\<lparr>smd_solvent := Some ''other''\<rparr>"
  from h have "dft_rung ?inp \<in> {1..5}" by simp
  then obtain st where st: "stage_seed ?inp = Inr st" using stage_seed_succeeds by blast
  have "stage_solvation tbl ?inp st = setup_smd ?inp st"
    using h by (intro stage_solvation_smd_only[of _ "''other''"]) simp_all
  then have "\<exists>st'. stage_solvation tbl ?inp st = Inl (err_custom_smd, st')"
    using h by (simp add: setup_smd_def Let_def)
  then have "\<exists>st'. QChemDictSet_body norm tbl ?inp = Inl (err_custom_smd, st')"
    by (auto simp: QChemDictSet_body_def st)
  then show "QChemDictSet super norm tbl ?inp = Inl err_custom_smd"
    using QChemDictSet_raises(2) by blast
next
  show "QChemDictSet_write (inp\<lparr>smd_solvent := Some ''other''\<rparr>) secs input_file
       = QChemDictSet_write (inp\<lparr>smd_solvent := Some ''custom''\<rparr>) secs input_file"
    by (simp add: QChemDictSet_write_def)
next
  assume "custom_smd inp = Some params"
  then show "QChemDictSet_write (inp\<lparr>smd_solvent := Some ''other''\<rparr>) secs input_file
        = Inr [(input_file, Rendered secs),
               (path_join (dirname input_file) ''solvent_data'', Text params)]"
    by (simp add: QChemDictSet_write_def)
qed

theorem C10_witness:
  "QChemDictSet QCInput_init lower_and_check_unique CMIRS_SETTINGS (example_input\<lparr>smd_solvent := Some ''other''\<rparr>)
     = Inl err_custom_smd
   \<and> QChemDictSet_write
        (example_input\<lparr>custom_smd := Some ''18.5,1.415,0.00,0.735,20.2,0.00,0.00'',
                       smd_solvent := Some ''other''\<rparr>) (init_locals example_input) ''/calc/mol.qin''
       = Inr [(''/calc/mol.qin'', Rendered (init_locals example_input)),
              (''/calc/solvent_data'', Text ''18.5,1.415,0.00,0.735,20.2,0.00,0.00'')]"
proof -
  have h: "dft_rung example_input \<in> {1..5} \<and> pcm_dielectric example_input = None
      \<and> isosvp_dielectric example_input = None \<and> cmirs_solvent example_input = None
      \<and> custom_smd example_input = None"
    by (simp add: example_input_def)
  have a: "QChemDictSet QCInput_init lower_and_check_unique CMIRS_SETTINGS (example_input\<lparr>smd_solvent := Some ''other''\<rparr>)
     = Inl err_custom_smd"
    using C10_other_like_custom[where super = QCInput_init and norm = lower_and_check_unique
        and tbl = CMIRS_SETTINGS and inp = example_input] h
    by blast
  let ?inp = "example_input\<lparr>custom_smd := Some ''18.5,1.415,0.00,0.735,20.2,0.00,0.00''\<rparr>"
  have k: "custom_smd ?inp = Some ''18.5,1.415,0.00,0.735,20.2,0.00,0.00''"
    by simp
  have "QChemDictSet_write (?inp\<lparr>smd_solvent := Some ''other''\<rparr>) (init_locals example_input) ''/calc/mol.qin''
       = Inr [(''/calc/mol.qin'', Rendered (init_locals example_input)),
              (path_join (dirname ''/calc/mol.qin'') ''solvent_data'',
               Text ''18.5,1.415,0.00,0.735,20.2,0.00,0.00'')]"
    using C10_other_like_custom[where super = QCInput_init and norm = lower_and_check_unique
        and tbl = CMIRS_SETTINGS and inp = ?inp and params = "''18.5,1.415,0.00,0.735,20.2,0.00,0.00''" and secs = "init_locals example_input"
        and input_file = "''/calc/mol.qin''"] k
    by blast
  with a show ?thesis by (simp only: path_example)
qed

lemma str_int_200: "str_int 200 = ''200''"
  by code_simp

lemma lower_opt: "lower ''opt'' = ''opt''"
  by code_simp

lemma overwrite_sections_nonels:
  "overwrite_sections norm tbl inp ovr st = Inr st' \<Longrightarrow> ''svp'' \<notin> fst ` set ovr \<Longrightarrow>
     ''pcm_nonels'' \<notin> fst ` set ovr \<Longrightarrow> mypcm_nonels st' = mypcm_nonels st"
proof (induction ovr arbitrary: st)
  case Nil
  then show ?case by simp
next
  case (Cons p ovr)
  obtain sec sec_dict where p: "p = (sec, sec_dict)" by (cases p)
  from Cons.prems(1) obtain st1 where s1: "overwrite_section norm tbl inp sec sec_dict st = Inr st1"
    and s2: "overwrite_sections norm tbl inp ovr st1 = Inr st'"
    by (auto simp: p bind_err_eq_Inr)
  from Cons.prems(2,3) have sec: "sec \<noteq> ''svp'' \<and> sec \<noteq> ''pcm_nonels''"
    and rest: "''svp'' \<notin> fst ` set ovr" "''pcm_nonels'' \<notin> fst ` set ovr"
    by (auto simp: p)
  from overwrite_section_frame(7)[OF s1] sec have "mypcm_nonels st1 = mypcm_nonels st" by simp
  with Cons.IH[OF s2 rest] show ?case by simp
qed

lemma stage_solvation_benzene:
  assumes "stage_solvation CMIRS_SETTINGS inp st = Inr st'" "cmirs_solvent inp = Some ''benzene''"
  shows "mypcm_nonels st' = (iso_001 cmirs_benzene)(''delta'' \<mapsto> PStr ''7'', ''gaulag_n'' \<mapsto> PStr ''40'')"
  using assms
  by (auto simp: stage_solvation_def setup_cmirs_def CMIRS_SETTINGS_def bind_err_eq_Inr)

text \<open>
  C2, as the claim states it, fails: in the nonelectrostatic section of a build with
  \<open>cmirs_solvent="benzene"\<close> the key \<open>"gamma"\<close> is present, with the value \<open>None\<close>.
\<close>

theorem C2_counterexample:
  "built_section mypcm_nonels
     (QChemDictSet QCInput_init lower_and_check_unique CMIRS_SETTINGS
        (example_input\<lparr>cmirs_solvent := Some ''benzene''\<rparr>)) ''gamma'' = Some PNone"
  by (simp add: built_section_def build_defs example_input_def CMIRS_SETTINGS_def
        cmirs_benzene_def coeffs_def)

lemma example_benzene_builds:
  "\<exists>out. QChemDictSet QCInput_init lower_and_check_unique CMIRS_SETTINGS
      (example_input\<lparr>cmirs_solvent := Some ''benzene''\<rparr>) = Inr out"
  by (simp add: build_defs example_input_def CMIRS_SETTINGS_def)

text \<open>
  C2, amended. In every build on the static table that returns, with
  \<open>cmirs_solvent="benzene"\<close> and no override of the svp and pcm_nonels sections, the
  nonelectrostatic section has exactly eight keys: \<open>a\<close>, \<open>b\<close> and \<open>solvrho\<close> with the
  strings of the table, \<open>delta\<close> = "7" and \<open>gaulag_n\<close> = "40", and \<open>c\<close>, \<open>d\<close> and \<open>gamma\<close>,
  each present with the value \<open>None\<close> that the table holds for it.
\<close>

theorem C2_benzene_nonels:
  assumes ok: "QChemDictSet super norm CMIRS_SETTINGS inp = Inr out"
    and benzene: "cmirs_solvent inp = Some ''benzene''"
    and no_ovr: "\<forall>ovr. overwrite_inputs inp = Some ovr \<longrightarrow>
                   ''svp'' \<notin> fst ` set ovr \<and> ''pcm_nonels'' \<notin> fst ` set ovr"
  shows "mypcm_nonels (built out) =
           [''a'' \<mapsto> PStr ''-0.00522'', ''b'' \<mapsto> PStr ''0.01294'', ''c'' \<mapsto> PNone,
            ''d'' \<mapsto> PNone, ''gamma'' \<mapsto> PNone, ''solvrho'' \<mapsto> PStr ''0.0421'',
            ''delta'' \<mapsto> PStr ''7'', ''gaulag_n'' \<mapsto> PStr ''40'']"
proof -
  from ok obtain st1 st2 st3 st4 st5 where
    s1: "stage_seed inp = Inr st1" and s2: "stage_solvation CMIRS_SETTINGS inp st1 = Inr st2"
    and s3: "stage_features inp st2 = Inr st3"
    and s4: "stage_overwrite norm CMIRS_SETTINGS inp st3 = Inr st4"
    and s5: "stage_extra_scf_print inp st4 = Inr st5" and out: "out = finish CMIRS_SETTINGS inp st5"
    by (auto simp: QChemDictSet_Inr)
  have "mypcm_nonels st4 = mypcm_nonels st3"
    using s4 no_ovr
    by (auto simp: stage_overwrite_def split: option.splits dest: overwrite_sections_nonels)
  with stage_solvation_benzene[OF s2 benzene] stage_features_keeps[OF s3]
    stage_extra_scf_print_keeps[OF s5]
  have "mypcm_nonels (built out) =
      (iso_001 cmirs_benzene)(''delta'' \<mapsto> PStr ''7'', ''gaulag_n'' \<mapsto> PStr ''40'')"
    by (simp add: out finish_def)
  then show ?thesis by (simp add: cmirs_benzene_def coeffs_def)
qed

theorem C2_witness:
  "\<exists>out. QChemDictSet QCInput_init lower_and_check_unique CMIRS_SETTINGS
      (example_input\<lparr>cmirs_solvent := Some ''benzene''\<rparr>) = Inr out
     \<and> mypcm_nonels (built out) =
           [''a'' \<mapsto> PStr ''-0.00522'', ''b'' \<mapsto> PStr ''0.01294'', ''c'' \<mapsto> PNone,
            ''d'' \<mapsto> PNone, ''gamma'' \<mapsto> PNone, ''solvrho'' \<mapsto> PStr ''0.0421'',
            ''delta'' \<mapsto> PStr ''7'', ''gaulag_n'' \<mapsto> PStr ''40'']"
proof -
  obtain out where b: "QChemDictSet QCInput_init lower_and_check_unique CMIRS_SETTINGS
      (example_input\<lparr>cmirs_solvent := Some ''benzene''\<rparr>) = Inr out"
    using example_benzene_builds by blast
  have c: "cmirs_solvent (example_input\<lparr>cmirs_solvent := Some ''benzene''\<rparr>) = Some ''benzene''"
    by simp
  have n: "\<forall>ovr. overwrite_inputs (example_input\<lparr>cmirs_solvent := Some ''benzene''\<rparr>) = Some ovr \<longrightarrow>
                   ''svp'' \<notin> fst ` set ovr \<and> ''pcm_nonels'' \<notin> fst ` set ovr"
    by (simp add: example_input_def)
  from C2_benzene_nonels[OF b c n] b show ?thesis by blast
qed

text \<open>
  C3. The build writes to objects it shares with its surroundings. With
  \<open>cmirs_solvent="benzene"\<close> and \<open>new_geom_opt={}\<close>, the caller's \<open>new_geom_opt\<close> holds
  \<open>"maxiter"\<close> afterwards (line 407), and the module-level table holds \<open>"delta"\<close> in its
  benzene entry for \<open>"0.001"\<close> (lines 378-380), which it did not hold before: the table
  the next build reads is not the table this build read.
\<close>

theorem C3_build_mutates_shared_state:
  "\<exists>out. QChemDictSet QCInput_init lower_and_check_unique CMIRS_SETTINGS
      (example_input\<lparr>cmirs_solvent := Some ''benzene'', new_geom_opt := Some Map.empty\<rparr>) = Inr out
     \<and> new_geom_opt_after out = Some [''maxiter'' \<mapsto> PStr ''200'']
     \<and> iso_001 (the (CMIRS_SETTINGS ''benzene'')) ''delta'' = None
     \<and> iso_001 (the (table_after out ''benzene'')) ''delta'' = Some (PStr ''7'')
     \<and> table_after out \<noteq> CMIRS_SETTINGS"
proof -
  let ?inp = "example_input\<lparr>cmirs_solvent := Some ''benzene'', new_geom_opt := Some Map.empty\<rparr>"
  obtain out where b: "QChemDictSet QCInput_init lower_and_check_unique CMIRS_SETTINGS ?inp = Inr out"
    by (simp add: build_defs example_input_def CMIRS_SETTINGS_def lower_opt Let_def)
  from b have g: "new_geom_opt_after out = Some [''maxiter'' \<mapsto> PStr ''200'']"
    by (auto simp: build_defs example_input_def CMIRS_SETTINGS_def str_int_200 lower_opt Let_def)
  have before: "iso_001 (the (CMIRS_SETTINGS ''benzene'')) ''delta'' = None"
    by (simp add: CMIRS_SETTINGS_def cmirs_benzene_def coeffs_def)
  from b have after: "iso_001 (the (table_after out ''benzene'')) ''delta'' = Some (PStr ''7'')"
    by (auto simp: build_defs example_input_def CMIRS_SETTINGS_def lower_opt Let_def)
  from before after have "table_after out \<noteq> CMIRS_SETTINGS" by auto
  with b g before after show ?thesis by blast
qed

lemma overwrite_sections_geom_opt:
  "overwrite_sections norm tbl inp ovr st = Inr st' \<Longrightarrow> my_geom_opt st = Some g \<Longrightarrow>
     \<not> overrides_key norm ovr ''geom_opt'' k \<Longrightarrow>
     \<exists>g'. my_geom_opt st' = Some g' \<and> g' k = g k"
proof (induction ovr arbitrary: st g)
  case Nil
  then show ?case by simp
next
  case (Cons p ovr)
  obtain sec sec_dict where p: "p = (sec, sec_dict)" by (cases p)
  from Cons.prems(1) obtain st1 where s1: "overwrite_section norm tbl inp sec sec_dict st = Inr st1"
    and s2: "overwrite_sections norm tbl inp ovr st1 = Inr st'"
    by (auto simp: p bind_err_eq_Inr)
  from Cons.prems(3) have no: "\<not> overrides_key norm ovr ''geom_opt'' k"
    by (simp add: overrides_key_def p)
  have "\<exists>g1. my_geom_opt st1 = Some g1 \<and> g1 k = g k"
  proof (cases "sec = ''geom_opt''")
    case True
    with overwrite_section_frame(6)[OF s1] Cons.prems(2) obtain temp
      where t: "norm sec_dict = Inr temp"
        and r: "my_geom_opt st1 = Some (assign_all g temp)" by auto
    from Cons.prems(3) t True have "k \<notin> fst ` set temp"
      by (simp add: overrides_key_def p)
    then show ?thesis by (simp add: r assign_all_other)
  next
    case False
    with overwrite_section_frame(5)[OF s1] Cons.prems(2) show ?thesis by simp
  qed
  then obtain g1 where g1: "my_geom_opt st1 = Some g1" "g1 k = g k" by blast
  from Cons.IH[OF s2 g1(1) no] g1(2) show ?case by auto
qed

lemma stage_seed_fresh:
  assumes "stage_seed inp = Inr st"
  shows "self_new_geom_opt st = new_geom_opt inp" and "myrem st ''scf_convergence'' = None"
  using assms
  by (auto simp: stage_seed_def set_method_def set_geom_opt_max_cycles_def init_locals_def
        bind_err_eq_Inr split: if_splits)

lemma setup_smd_self:
  "setup_smd inp st = Inr st' \<Longrightarrow> self_new_geom_opt st' = self_new_geom_opt st"
  by (auto simp: setup_smd_def Let_def split: option.splits if_splits)

lemma setup_cmirs_self:
  "setup_cmirs tbl inp st = Inr st' \<Longrightarrow> self_new_geom_opt st' = self_new_geom_opt st"
  by (auto simp: setup_cmirs_def Let_def split: option.splits)

lemma stage_solvation_self:
  assumes "stage_solvation tbl inp st = Inr st'"
  shows "self_new_geom_opt st' = self_new_geom_opt st"
proof -
  from assms obtain st1 st2 where c: "check_solvent_def inp st = Inr st1"
    and s: "setup_smd inp (setup_isosvp inp (setup_pcm inp st1)) = Inr st2"
    and m: "setup_cmirs tbl inp st2 = Inr st'"
    by (auto simp: stage_solvation_def bind_err_eq_Inr)
  from c have "st1 = st" by (simp add: check_solvent_def_def split: if_splits)
  moreover have "self_new_geom_opt (setup_isosvp inp (setup_pcm inp st1)) = self_new_geom_opt st1"
    by (simp add: setup_isosvp_def setup_pcm_def split: option.splits)
  ultimately show ?thesis using setup_smd_self[OF s] setup_cmirs_self[OF m] by simp
qed

lemma setup_nbo_plots_keeps:
  assumes "setup_nbo inp (setup_plots inp st) = Inr st'"
  shows "self_new_geom_opt st' = self_new_geom_opt st"
    and "myrem st' ''scf_convergence'' = myrem st ''scf_convergence''"
  using assms
  by (auto simp: setup_plots_def setup_nbo_def Let_def split: if_splits option.splits)

lemma before_new_geom_opt:
  assumes "stage_seed inp = Inr st1" "stage_solvation tbl inp st1 = Inr st2"
    "setup_nbo inp (setup_plots inp st2) = Inr st3"
  shows "self_new_geom_opt st3 = new_geom_opt inp" and "myrem st3 ''scf_convergence'' = None"
proof -
  show "self_new_geom_opt st3 = new_geom_opt inp"
    using stage_seed_fresh(1)[OF assms(1)] stage_solvation_self[OF assms(2)]
      setup_nbo_plots_keeps(1)[OF assms(3)] by simp
  have "myrem st2 ''scf_convergence'' = myrem st1 ''scf_convergence''"
    by (rule stage_solvation_myrem[OF assms(2)]) simp
  then show "myrem st3 ''scf_convergence'' = None"
    using stage_seed_fresh(2)[OF assms(1)] setup_nbo_plots_keeps(2)[OF assms(3)] by simp
qed

lemma setup_new_geom_opt_cases:
  assumes "self_new_geom_opt st = Some g"
  shows "setup_new_geom_opt inp st =
     (case g ''maxiter'' of
        Some v \<Rightarrow>
          if v \<noteq> PStr (str_int (geom_opt_max_cycles inp))
          then Inl (err_maxiter,
                    st\<lparr>my_geom_opt := Some g, myrem := (myrem st)(''geom_opt2'' \<mapsto> PStr ''3'')\<rparr>)
          else Inr (st\<lparr>myrem := (myrem st)(''geom_opt2'' \<mapsto> PStr ''3''), my_geom_opt := Some g\<rparr>)
      | None \<Rightarrow>
          Inr (st\<lparr>myrem := (myrem st)(''geom_opt2'' \<mapsto> PStr ''3''),
                  self_new_geom_opt := Some (g(''maxiter'' \<mapsto> PStr (str_int (geom_opt_max_cycles inp)))),
                  my_geom_opt := Some (g(''maxiter'' \<mapsto> PStr (str_int (geom_opt_max_cycles inp))))\<rparr>))"
  using assms by (simp add: setup_new_geom_opt_def Let_def split: option.splits)

lemma no_overrides_rest:
  assumes "overwrite_inputs inp = None" "myrem st ''scf_convergence'' = None"
  shows "\<exists>st'. bind_err (stage_overwrite norm tbl inp st) (stage_extra_scf_print inp) = Inr st'
     \<and> my_geom_opt st' = my_geom_opt st"
  using assms
  by (auto simp: stage_overwrite_def stage_extra_scf_print_def Let_def)

lemma setup_new_geom_opt_maxiter:
  assumes "setup_new_geom_opt inp st = Inr st'" "self_new_geom_opt st = Some g"
  shows "\<exists>d. my_geom_opt st' = Some d
     \<and> d ''maxiter'' = Some (PStr (str_int (geom_opt_max_cycles inp)))"
  using assms
  by (auto simp: setup_new_geom_opt_def Let_def split: option.splits if_splits)

lemma reaches_super:
  assumes "stage_seed inp = Inr st1" "stage_solvation tbl inp st1 = Inr st2"
    "setup_nbo inp (setup_plots inp st2) = Inr st3" "setup_new_geom_opt inp st3 = Inr st4"
    "overwrite_inputs inp = None" "myrem st4 ''scf_convergence'' = None"
  shows "\<exists>st5. QChemDictSet_body norm tbl inp = Inr st5 \<and> my_geom_opt st5 = my_geom_opt st4
     \<and> QChemDictSet super norm tbl inp
         = (case super (super_args inp st5) of
              None \<Rightarrow> Inr (finish tbl inp st5) | Some e \<Rightarrow> Inl e)"
proof -
  from no_overrides_rest[OF assms(5,6), of norm tbl] obtain st5 where
    r: "bind_err (stage_overwrite norm tbl inp st4) (stage_extra_scf_print inp) = Inr st5"
    and g: "my_geom_opt st5 = my_geom_opt st4" by auto
  from r obtain st4' where "stage_overwrite norm tbl inp st4 = Inr st4'"
    "stage_extra_scf_print inp st4' = Inr st5" by (auto simp: bind_err_eq_Inr)
  with assms(1-4) have body: "QChemDictSet_body norm tbl inp = Inr st5"
    by (simp add: QChemDictSet_body_def stage_features_def)
  with g QChemDictSet_after_body[OF body, of super] show ?thesis by blast
qed

lemma example_before_new_geom_opt:
  "\<exists>st1 st2 st3. stage_seed (example_input\<lparr>new_geom_opt := x\<rparr>) = Inr st1
      \<and> stage_solvation tbl (example_input\<lparr>new_geom_opt := x\<rparr>) st1 = Inr st2
      \<and> setup_nbo (example_input\<lparr>new_geom_opt := x\<rparr>)
            (setup_plots (example_input\<lparr>new_geom_opt := x\<rparr>) st2) = Inr st3"
  by (simp add: stage_seed_def set_method_def stage_solvation_def check_solvent_def_def
        solvent_def_def setup_pcm_def setup_isosvp_def setup_smd_def setup_cmirs_def
        setup_plots_def setup_nbo_def example_input_def)

text \<open>
  C5. Take a build that asks for the new optimizer (\<open>new_geom_opt\<close> is a dictionary \<open>g\<close>).
  Once the steps of lines 289-398 have passed: if \<open>g\<close> holds a \<open>"maxiter"\<close> other than
  \<open>str(geom_opt_max_cycles)\<close>, the build fails with the \<open>RuntimeError\<close> "Max # of
  optimization cycles must be the same!"; if it holds exactly that string, the optimizer
  step passes with \<open>g\<close> as the geom_opt section; if it holds no \<open>"maxiter"\<close>, the step
  passes with \<open>"maxiter"\<close> added, equal to \<open>str(geom_opt_max_cycles)\<close>. In both passing
  cases, when there are no overrides, the body of the constructor reaches the call of the
  superclass constructor (line 510) with that geom_opt section, and the build returns if
  the superclass constructor does, and raises what it raises otherwise. And in every
  build that returns, the geom_opt section holds \<open>"maxiter"\<close> equal to
  \<open>str(geom_opt_max_cycles)\<close>, unless a geom_opt override names that key.
\<close>

theorem C5_new_geom_opt_maxiter:
  assumes ng: "new_geom_opt inp = Some g"
  shows "(\<forall>st1 st2 st3. stage_seed inp = Inr st1 \<and> stage_solvation tbl inp st1 = Inr st2
            \<and> setup_nbo inp (setup_plots inp st2) = Inr st3 \<longrightarrow>
          (\<forall>v. g ''maxiter'' = Some v \<and> v \<noteq> PStr (str_int (geom_opt_max_cycles inp)) \<longrightarrow>
               QChemDictSet super norm tbl inp = Inl err_maxiter)
        \<and> (g ''maxiter'' = Some (PStr (str_int (geom_opt_max_cycles inp))) \<longrightarrow>
              (\<exists>st4. setup_new_geom_opt inp st3 = Inr st4 \<and> my_geom_opt st4 = Some g)
            \<and> (overwrite_inputs inp = None \<longrightarrow>
                 (\<exists>st5. QChemDictSet_body norm tbl inp = Inr st5 \<and> my_geom_opt st5 = Some g
                    \<and> QChemDictSet super norm tbl inp
                        = (case super (super_args inp st5) of
                             None \<Rightarrow> Inr (finish tbl inp st5) | Some e \<Rightarrow> Inl e))))
        \<and> (g ''maxiter'' = None \<longrightarrow>
              (\<exists>st4. setup_new_geom_opt inp st3 = Inr st4
                 \<and> my_geom_opt st4 = Some (g(''maxiter'' \<mapsto> PStr (str_int (geom_opt_max_cycles inp)))))
            \<and> (overwrite_inputs inp = None \<longrightarrow>
                 (\<exists>st5. QChemDictSet_body norm tbl inp = Inr st5
                    \<and> my_geom_opt st5
                        = Some (g(''maxiter'' \<mapsto> PStr (str_int (geom_opt_max_cycles inp))))
                    \<and> QChemDictSet super norm tbl inp
                        = (case super (super_args inp st5) of
                             None \<Rightarrow> Inr (finish tbl inp st5) | Some e \<Rightarrow> Inl e)))))
     \<and> (\<forall>out. QChemDictSet super norm tbl inp = Inr out
            \<and> (\<forall>ovr. overwrite_inputs inp = Some ovr \<longrightarrow>
                   \<not> overrides_key norm ovr ''geom_opt'' ''maxiter'') \<longrightarrow>
          (\<exists>d. my_geom_opt (built out) = Some d
             \<and> d ''maxiter'' = Some (PStr (str_int (geom_opt_max_cycles inp)))))"
proof (intro conjI allI impI)
  fix st1 st2 st3 v
  assume pre: "stage_seed inp = Inr st1 \<and> stage_solvation tbl inp st1 = Inr st2
            \<and> setup_nbo inp (setup_plots inp st2) = Inr st3"
    and v: "g ''maxiter'' = Some v \<and> v \<noteq> PStr (str_int (geom_opt_max_cycles inp))"
  from pre have self: "self_new_geom_opt st3 = Some g"
    using before_new_geom_opt(1)[of inp st1 tbl st2 st3] ng by simp
  have "\<exists>st'. setup_new_geom_opt inp st3 = Inl (err_maxiter, st')"
    using v by (simp add: setup_new_geom_opt_cases[OF self])
  with pre have "\<exists>st'. QChemDictSet_body norm tbl inp = Inl (err_maxiter, st')"
    by (auto simp: QChemDictSet_body_def stage_features_def)
  then show "QChemDictSet super norm tbl inp = Inl err_maxiter"
    using QChemDictSet_raises(2) by blast
next
  fix st1 st2 st3
  assume pre: "stage_seed inp = Inr st1 \<and> stage_solvation tbl inp st1 = Inr st2
            \<and> setup_nbo inp (setup_plots inp st2) = Inr st3"
    and eq: "g ''maxiter'' = Some (PStr (str_int (geom_opt_max_cycles inp)))"
  from pre have self: "self_new_geom_opt st3 = Some g"
    using before_new_geom_opt(1)[of inp st1 tbl st2 st3] ng by simp
  let ?st4 = "st3\<lparr>myrem := (myrem st3)(''geom_opt2'' \<mapsto> PStr ''3''), my_geom_opt := Some g\<rparr>"
  have s4: "setup_new_geom_opt inp st3 = Inr ?st4"
    using eq by (simp add: setup_new_geom_opt_cases[OF self])
  then show "\<exists>st4. setup_new_geom_opt inp st3 = Inr st4 \<and> my_geom_opt st4 = Some g"
    by simp
  assume none: "overwrite_inputs inp = None"
  have conv: "myrem ?st4 ''scf_convergence'' = None"
    using before_new_geom_opt(2)[of inp st1 tbl st2 st3] pre by simp
  from pre have p: "stage_seed inp = Inr st1" "stage_solvation tbl inp st1 = Inr st2"
    "setup_nbo inp (setup_plots inp st2) = Inr st3" by simp_all
  from reaches_super[OF p s4 none conv, of norm super]
  show "\<exists>st5. QChemDictSet_body norm tbl inp = Inr st5 \<and> my_geom_opt st5 = Some g
          \<and> QChemDictSet super norm tbl inp
              = (case super (super_args inp st5) of
                   None \<Rightarrow> Inr (finish tbl inp st5) | Some e \<Rightarrow> Inl e)"
    by simp
next
  fix st1 st2 st3
  assume pre: "stage_seed inp = Inr st1 \<and> stage_solvation tbl inp st1 = Inr st2
            \<and> setup_nbo inp (setup_plots inp st2) = Inr st3"
    and om: "g ''maxiter'' = None"
  from pre have self: "self_new_geom_opt st3 = Some g"
    using before_new_geom_opt(1)[of inp st1 tbl st2 st3] ng by simp
  let ?g1 = "g(''maxiter'' \<mapsto> PStr (str_int (geom_opt_max_cycles inp)))"
  let ?st4 = "st3\<lparr>myrem := (myrem st3)(''geom_opt2'' \<mapsto> PStr ''3''),
                  self_new_geom_opt := Some ?g1, my_geom_opt := Some ?g1\<rparr>"
  have s4: "setup_new_geom_opt inp st3 = Inr ?st4"
    using om by (simp add: setup_new_geom_opt_cases[OF self])
  then show "\<exists>st4. setup_new_geom_opt inp st3 = Inr st4 \<and> my_geom_opt st4 = Some ?g1"
    by simp
  assume none: "overwrite_inputs inp = None"
  have conv: "myrem ?st4 ''scf_convergence'' = None"
    using before_new_geom_opt(2)[of inp st1 tbl st2 st3] pre by simp
  from pre have p: "stage_seed inp = Inr st1" "stage_solvation tbl inp st1 = Inr st2"
    "setup_nbo inp (setup_plots inp st2) = Inr st3" by simp_all
  from reaches_super[OF p s4 none conv, of norm super]
  show "\<exists>st5. QChemDictSet_body norm tbl inp = Inr st5 \<and> my_geom_opt st5 = Some ?g1
          \<and> QChemDictSet super norm tbl inp
              = (case super (super_args inp st5) of
                   None \<Rightarrow> Inr (finish tbl inp st5) | Some e \<Rightarrow> Inl e)"
    by simp
next
  fix out
  assume h: "QChemDictSet super norm tbl inp = Inr out
            \<and> (\<forall>ovr. overwrite_inputs inp = Some ovr \<longrightarrow>
                   \<not> overrides_key norm ovr ''geom_opt'' ''maxiter'')"
  then obtain st1 st2 st3 st4 st5 where
    s1: "stage_seed inp = Inr st1" and s2: "stage_solvation tbl inp st1 = Inr st2"
    and s3: "stage_features inp st2 = Inr st3" and s4: "stage_overwrite norm tbl inp st3 = Inr st4"
    and s5: "stage_extra_scf_print inp st4 = Inr st5" and out: "out = finish tbl inp st5"
    by (auto simp: QChemDictSet_Inr)
  from s3 obtain st2' where n: "setup_nbo inp (setup_plots inp st2) = Inr st2'"
    and f: "setup_new_geom_opt inp st2' = Inr st3"
    by (auto simp: stage_features_def bind_err_eq_Inr)
  have self: "self_new_geom_opt st2' = Some g"
    using before_new_geom_opt(1)[OF s1 s2 n] ng by simp
  from setup_new_geom_opt_maxiter[OF f self] obtain d where
    d: "my_geom_opt st3 = Some d" "d ''maxiter'' = Some (PStr (str_int (geom_opt_max_cycles inp)))"
    by blast
  have "\<exists>d'. my_geom_opt st4 = Some d' \<and> d' ''maxiter'' = d ''maxiter''"
  proof (cases "overwrite_inputs inp")
    case None
    with s4 d show ?thesis by (simp add: stage_overwrite_def)
  next
    case (Some ovr)
    with s4 have "overwrite_sections norm tbl inp ovr st3 = Inr st4"
      by (simp add: stage_overwrite_def)
    from overwrite_sections_geom_opt[OF this d(1)] h Some show ?thesis by blast
  qed
  with d stage_extra_scf_print_keeps[OF s5]
  show "\<exists>d. my_geom_opt (built out) = Some d
             \<and> d ''maxiter'' = Some (PStr (str_int (geom_opt_max_cycles inp)))"
    by (auto simp: out finish_def)
qed

theorem C5_witness:
  "QChemDictSet QCInput_init lower_and_check_unique CMIRS_SETTINGS
      (example_input\<lparr>new_geom_opt := Some [''maxiter'' \<mapsto> PStr ''100'']\<rparr>) = Inl err_maxiter
   \<and> (\<exists>out. QChemDictSet QCInput_init lower_and_check_unique CMIRS_SETTINGS
          (example_input\<lparr>new_geom_opt := Some [''maxiter'' \<mapsto> PStr ''200'']\<rparr>) = Inr out
        \<and> my_geom_opt (built out) = Some [''maxiter'' \<mapsto> PStr ''200''])
   \<and> (\<exists>out. QChemDictSet QCInput_init lower_and_check_unique CMIRS_SETTINGS
          (example_input\<lparr>new_geom_opt := Some [''coordinates'' \<mapsto> PStr ''redundant'']\<rparr>) = Inr out
        \<and> my_geom_opt (built out)
            = Some [''coordinates'' \<mapsto> PStr ''redundant'', ''maxiter'' \<mapsto> PStr ''200''])"
proof -
  have lim: "str_int (geom_opt_max_cycles example_input) = ''200''"
    by (simp add: example_input_def str_int_200)
  have none: "overwrite_inputs (example_input\<lparr>new_geom_opt := x\<rparr>) = None" for x
    by (simp add: example_input_def)
  have accepts: "QCInput_init (super_args (example_input\<lparr>new_geom_opt := x\<rparr>) st5) = None"
    if "QChemDictSet_body lower_and_check_unique CMIRS_SETTINGS
          (example_input\<lparr>new_geom_opt := x\<rparr>) = Inr st5" for x st5
  proof -
    have "myrem st5 ''job_type'' = Some (PStr (job_type (example_input\<lparr>new_geom_opt := x\<rparr>)))"
      by (rule QChemDictSet_body_job_type[OF that]) (simp add: example_input_def)
    then show ?thesis by (rule QCInput_init_accepts) (simp add: example_input_def)
  qed
  let ?a = "example_input\<lparr>new_geom_opt := Some [''maxiter'' \<mapsto> PStr ''100'']\<rparr>"
  let ?b = "example_input\<lparr>new_geom_opt := Some [''maxiter'' \<mapsto> PStr ''200'']\<rparr>"
  let ?c = "example_input\<lparr>new_geom_opt := Some [''coordinates'' \<mapsto> PStr ''redundant'']\<rparr>"
  have ga: "new_geom_opt ?a = Some [''maxiter'' \<mapsto> PStr ''100'']" by simp
  have gb: "new_geom_opt ?b = Some [''maxiter'' \<mapsto> PStr ''200'']" by simp
  have gc: "new_geom_opt ?c = Some [''coordinates'' \<mapsto> PStr ''redundant'']" by simp
  have a: "QChemDictSet QCInput_init lower_and_check_unique CMIRS_SETTINGS ?a = Inl err_maxiter"
    using C5_new_geom_opt_maxiter[OF ga, of CMIRS_SETTINGS QCInput_init lower_and_check_unique]
      example_before_new_geom_opt[of "Some [''maxiter'' \<mapsto> PStr ''100'']" CMIRS_SETTINGS]
    by (auto simp: lim)
  have "\<exists>st5. QChemDictSet_body lower_and_check_unique CMIRS_SETTINGS ?b = Inr st5
        \<and> my_geom_opt st5 = Some [''maxiter'' \<mapsto> PStr ''200'']
        \<and> QChemDictSet QCInput_init lower_and_check_unique CMIRS_SETTINGS ?b
            = (case QCInput_init (super_args ?b st5) of
                 None \<Rightarrow> Inr (finish CMIRS_SETTINGS ?b st5) | Some e \<Rightarrow> Inl e)"
    using C5_new_geom_opt_maxiter[OF gb, of CMIRS_SETTINGS QCInput_init lower_and_check_unique]
      example_before_new_geom_opt[of "Some [''maxiter'' \<mapsto> PStr ''200'']" CMIRS_SETTINGS]
    by (auto simp: lim none)
  then obtain sb where sb: "QChemDictSet_body lower_and_check_unique CMIRS_SETTINGS ?b = Inr sb"
    "my_geom_opt sb = Some [''maxiter'' \<mapsto> PStr ''200'']"
    "QChemDictSet QCInput_init lower_and_check_unique CMIRS_SETTINGS ?b
            = (case QCInput_init (super_args ?b sb) of
                 None \<Rightarrow> Inr (finish CMIRS_SETTINGS ?b sb) | Some e \<Rightarrow> Inl e)" by blast
  have b: "\<exists>out. QChemDictSet QCInput_init lower_and_check_unique CMIRS_SETTINGS ?b = Inr out
        \<and> my_geom_opt (built out) = Some [''maxiter'' \<mapsto> PStr ''200'']"
    using sb accepts[OF sb(1)] by (simp add: finish_def)
  have "\<exists>st5. QChemDictSet_body lower_and_check_unique CMIRS_SETTINGS ?c = Inr st5
        \<and> my_geom_opt st5
            = Some [''coordinates'' \<mapsto> PStr ''redundant'', ''maxiter'' \<mapsto> PStr ''200'']
        \<and> QChemDictSet QCInput_init lower_and_check_unique CMIRS_SETTINGS ?c
            = (case QCInput_init (super_args ?c st5) of
                 None \<Rightarrow> Inr (finish CMIRS_SETTINGS ?c st5) | Some e \<Rightarrow> Inl e)"
    using C5_new_geom_opt_maxiter[OF gc, of CMIRS_SETTINGS QCInput_init lower_and_check_unique]
      example_before_new_geom_opt[of "Some [''coordinates'' \<mapsto> PStr ''redundant'']" CMIRS_SETTINGS]
    by (auto simp: lim none)
  then obtain sc where sc: "QChemDictSet_body lower_and_check_unique CMIRS_SETTINGS ?c = Inr sc"
    "my_geom_opt sc
        = Some [''coordinates'' \<mapsto> PStr ''redundant'', ''maxiter'' \<mapsto> PStr ''200'']"
    "QChemDictSet QCInput_init lower_and_check_unique CMIRS_SETTINGS ?c
            = (case QCInput_init (super_args ?c sc) of
                 None \<Rightarrow> Inr (finish CMIRS_SETTINGS ?c sc) | Some e \<Rightarrow> Inl e)" by blast
  have c: "\<exists>out. QChemDictSet QCInput_init lower_and_check_unique CMIRS_SETTINGS ?c = Inr out
        \<and> my_geom_opt (built out)
            = Some [''coordinates'' \<mapsto> PStr ''redundant'', ''maxiter'' \<mapsto> PStr ''200'']"
    using sc accepts[OF sc(1)] by (simp add: finish_def)
  from a b c show ?thesis by blast
qed

lemma apply_then_act: "apply_act (then_act a b) x = apply_act b (apply_act a x)"
  by (cases a; cases b; cases x) simp_all

lemma apply_act_idem: "apply_act a (apply_act a x) = apply_act a x"
  by (cases a; cases x) simp_all

lemma apply_act_defined: "x \<noteq> None \<Longrightarrow> apply_act a x \<noteq> None"
  by (cases a; cases x) simp_all

lemma apply_act_mono: "apply_act a x \<noteq> None \<Longrightarrow> (x \<noteq> None \<longrightarrow> y \<noteq> None) \<Longrightarrow> apply_act a y \<noteq> None"
  by (cases a; cases x; cases y) simp_all

lemma assign_all_act: "assign_all d temp k = apply_act (assign_act temp k) (d k)"
proof (induction temp arbitrary: d)
  case Nil
  show ?case by simp
next
  case (Cons kv temp)
  obtain k' v where kv: "kv = (k', v)" by (cases kv)
  have "assign_all d (kv # temp) k = apply_act (assign_act temp k) ((d(k' \<mapsto> v)) k)"
    unfolding kv assign_all.simps by (rule Cons.IH)
  also have "(d(k' \<mapsto> v)) k = apply_act (if k' = k then Put v else Keep) (d k)"
    by simp
  finally show ?case by (simp add: kv apply_then_act)
qed

lemma remerge_act: "remerge src d k = apply_act (remerge_act src k) (d k)"
  by (simp add: remerge_def remerge_act_def split: option.splits)

lemma remerge_self: "remerge d d = d"
  by (rule ext) (simp add: remerge_def split: option.splits)

lemma acts_rel_refl: "acts_rel st st u u"
  unfolding acts_rel_def by (intro allI exI[of _ Keep]) simp

lemma acts_rel_trans:
  assumes "acts_rel st st1 u u1" "acts_rel st1 st2 u1 u2"
  shows "acts_rel st st2 u u2"
  unfolding acts_rel_def
proof (intro allI)
  fix c k
  from assms(1) obtain a where a: "look c st1 k = apply_act a (look c st k)"
    "look c u1 k = apply_act a (look c u k)" unfolding acts_rel_def by blast
  from assms(2) obtain b where b: "look c st2 k = apply_act b (look c st1 k)"
    "look c u2 k = apply_act b (look c u1 k)" unfolding acts_rel_def by blast
  show "\<exists>a. look c st2 k = apply_act a (look c st k) \<and> look c u2 k = apply_act a (look c u k)"
    by (rule exI[of _ "then_act a b"]) (simp add: apply_then_act a b)
qed

lemma acts_rel_dom_incl:
  assumes "acts_rel st st' u u'" "dom_incl st u"
  shows "dom_incl st' u'"
  unfolding dom_incl_def
proof (intro allI impI)
  fix c k
  assume d: "look c st' k \<noteq> None"
  from assms(1) obtain a where a: "look c st' k = apply_act a (look c st k)"
    "look c u' k = apply_act a (look c u k)" unfolding acts_rel_def by blast
  from assms(2) have "look c st k \<noteq> None \<longrightarrow> look c u k \<noteq> None"
    unfolding dom_incl_def by blast
  with d a show "look c u' k \<noteq> None" using apply_act_mono by metis
qed

lemma shape_trans: "shape a b \<Longrightarrow> shape b c \<Longrightarrow> shape a c"
  by (auto simp: shape_def)

lemma shape_refl: "shape a a"
  by (simp add: shape_def)

lemma sim_Inr: "sim Inr"
  by (auto simp: sim_def shape_refl acts_rel_refl)

lemma sim_bind:
  assumes "sim h1" "sim h2"
  shows "sim (\<lambda>st. bind_err (h1 st) h2)"
  unfolding sim_def
proof (intro allI impI)
  fix st st' u
  assume h: "bind_err (h1 st) h2 = Inr st' \<and> shape st u \<and> dom_incl st u"
  then obtain st1 where s1: "h1 st = Inr st1" and s2: "h2 st1 = Inr st'"
    by (auto simp: bind_err_eq_Inr)
  from assms(1) s1 h obtain u1 where sh1: "shape st st1" and u1: "h1 u = Inr u1"
    and su1: "shape st1 u1" and a1: "acts_rel st st1 u u1"
    unfolding sim_def by blast
  from acts_rel_dom_incl[OF a1] h have d1: "dom_incl st1 u1" by blast
  from assms(2) s2 su1 d1 obtain u2 where sh2: "shape st1 st'" and u2: "h2 u1 = Inr u2"
    and su2: "shape st' u2" and a2: "acts_rel st1 st' u1 u2"
    unfolding sim_def by blast
  show "shape st st' \<and> (\<exists>u'. bind_err (h1 u) h2 = Inr u' \<and> shape st' u' \<and> acts_rel st st' u u')"
    using shape_trans[OF sh1 sh2] u1 u2 su2 acts_rel_trans[OF a1 a2] by auto
qed


lemma ex_act_keep: "\<exists>a. x = apply_act a x \<and> y = apply_act a y"
  by (rule exI[of _ Keep]) simp

lemma ex_act_assign:
  "\<exists>a. assign_all d temp k = apply_act a (d k) \<and> assign_all d' temp k = apply_act a (d' k)"
  by (intro exI[of _ "assign_act temp k"] conjI assign_all_act)

lemma ex_act_put: "\<exists>a. Some v = apply_act a x \<and> Some v = apply_act a y"
  by (rule exI[of _ "Put v"]) simp

lemma ex_act_remerge:
  "\<exists>a. remerge src d k = apply_act a (d k) \<and> remerge src d' k = apply_act a (d' k)"
  by (intro exI[of _ "remerge_act src k"] conjI remerge_act)

lemma simI:
  assumes "\<And>st st' u. h st = Inr st' \<Longrightarrow> shape st u \<Longrightarrow> dom_incl st u \<Longrightarrow>
     shape st st' \<and> (\<exists>u'. h u = Inr u' \<and> shape st' u'
        \<and> (\<forall>c k. \<exists>a. look c st' k = apply_act a (look c st k)
                      \<and> look c u' k = apply_act a (look c u k)))"
  shows "sim h"
  using assms unfolding sim_def acts_rel_def by blast

lemma sim_pure:
  assumes "\<And>st u. shape st u \<Longrightarrow> shape st (f st) \<and> shape (f st) (f u)"
    and "\<And>st u c k. \<exists>a. look c (f st) k = apply_act a (look c st k)
                         \<and> look c (f u) k = apply_act a (look c u k)"
  shows "sim (\<lambda>st. Inr (f st))"
proof (rule simI)
  fix st st' u
  assume "Inr (f st) = (Inr st' :: raised + locals)" and sh: "shape st u"
  then have st': "st' = f st" by simp
  from assms(1)[OF sh] assms(2)[where st = st and u = u]
  show "shape st st' \<and> (\<exists>u'. Inr (f u) = (Inr u' :: raised + locals) \<and> shape st' u'
        \<and> (\<forall>c k. \<exists>a. look c st' k = apply_act a (look c st k)
                      \<and> look c u' k = apply_act a (look c u k)))"
    unfolding st' by blast
qed

lemma sim_if: "sim h \<Longrightarrow> sim (\<lambda>st. if b then h st else Inr st)"
  using sim_Inr by (cases b) simp_all

lemma sim_Inl: "sim (\<lambda>st. Inl (f st))"
  by (simp add: sim_def)

lemma sim_norm:
  assumes "\<And>temp. sim (h temp)"
  shows "sim (\<lambda>st. bind_err (in_state st (r :: error + items)) (\<lambda>temp. h temp st))"
  using assms by (cases r) (simp_all add: in_state_def sim_Inl)

lemma sim_ow_rem: "sim (ow_rem norm sec sec_dict)"
  unfolding ow_rem_def[abs_def]
proof (intro sim_if sim_norm sim_pure)
  fix temp st u c k
  show "\<exists>a. look c (st\<lparr>myrem := assign_all (myrem st) temp\<rparr>) k = apply_act a (look c st k)
          \<and> look c (u\<lparr>myrem := assign_all (myrem u) temp\<rparr>) k = apply_act a (look c u k)"
    by (cases c) (simp_all add: ex_act_keep ex_act_assign)
qed (simp add: shape_def)

lemma sim_ow_pcm: "sim (ow_pcm norm sec sec_dict)"
  unfolding ow_pcm_def[abs_def]
proof (intro sim_if sim_norm sim_pure)
  fix temp st u c k
  show "\<exists>a. look c (st\<lparr>mypcm := assign_all (mypcm st) temp\<rparr>) k = apply_act a (look c st k)
          \<and> look c (u\<lparr>mypcm := assign_all (mypcm u) temp\<rparr>) k = apply_act a (look c u k)"
    by (cases c) (simp_all add: ex_act_keep ex_act_assign)
qed (simp add: shape_def)

lemma sim_ow_smx: "sim (ow_smx norm sec sec_dict)"
  unfolding ow_smx_def[abs_def]
proof (intro sim_if sim_norm sim_pure)
  fix temp st u c k
  show "\<exists>a. look c (st\<lparr>mysmx := assign_all (mysmx st) temp\<rparr>) k = apply_act a (look c st k)
          \<and> look c (u\<lparr>mysmx := assign_all (mysmx u) temp\<rparr>) k = apply_act a (look c u k)"
    by (cases c) (simp_all add: ex_act_keep ex_act_assign)
qed (simp add: shape_def)

lemma sim_ow_scan: "sim (ow_scan norm sec sec_dict)"
  unfolding ow_scan_def[abs_def]
proof (intro sim_if sim_norm sim_pure)
  fix temp st u c k
  show "\<exists>a. look c (st\<lparr>myscan := assign_all (myscan st) temp\<rparr>) k = apply_act a (look c st k)
          \<and> look c (u\<lparr>myscan := assign_all (myscan u) temp\<rparr>) k = apply_act a (look c u k)"
    by (cases c) (simp_all add: ex_act_keep ex_act_assign)
qed (simp add: shape_def)

lemma sim_ow_plots: "sim (ow_plots norm sec sec_dict)"
  unfolding ow_plots_def[abs_def]
proof (intro sim_if sim_norm sim_pure)
  fix temp st u c k
  show "\<exists>a. look c (st\<lparr>myplots := assign_all (myplots st) temp\<rparr>) k = apply_act a (look c st k)
          \<and> look c (u\<lparr>myplots := assign_all (myplots u) temp\<rparr>) k = apply_act a (look c u k)"
    by (cases c) (simp_all add: ex_act_keep ex_act_assign)
qed (simp add: shape_def)

lemma sim_ow_opt: "sim (ow_opt norm sec sec_dict)"
  unfolding ow_opt_def[abs_def]
proof (intro sim_if sim_norm sim_pure)
  fix temp st u c k
  show "\<exists>a. look c (st\<lparr>myopt := assign_all (myopt st) temp\<rparr>) k = apply_act a (look c st k)
          \<and> look c (u\<lparr>myopt := assign_all (myopt u) temp\<rparr>) k = apply_act a (look c u k)"
    by (cases c) (simp_all add: ex_act_keep ex_act_assign)
qed (simp add: shape_def)

lemma sim_ow_pcm_nonels: "sim (ow_pcm_nonels norm sec sec_dict)"
  unfolding ow_pcm_nonels_def[abs_def]
proof (intro sim_if sim_norm sim_pure)
  fix temp st u c k
  show "\<exists>a. look c (st\<lparr>mypcm_nonels := assign_all (mypcm_nonels st) temp\<rparr>) k
              = apply_act a (look c st k)
          \<and> look c (u\<lparr>mypcm_nonels := assign_all (mypcm_nonels u) temp\<rparr>) k
              = apply_act a (look c u k)"
    by (cases c) (simp_all add: ex_act_keep ex_act_assign)
qed (simp add: shape_def)

lemma sim_ow_vdw: "sim (ow_vdw norm sec sec_dict)"
  unfolding ow_vdw_def[abs_def]
proof (intro sim_if sim_norm sim_pure)
  fix temp st u c k
  show "\<exists>a. look c (st\<lparr>myvdw := assign_all (myvdw st) temp,
                        mypcm := (mypcm st)(''radii'' \<mapsto> PStr ''read'')\<rparr>) k
              = apply_act a (look c st k)
          \<and> look c (u\<lparr>myvdw := assign_all (myvdw u) temp,
                        mypcm := (mypcm u)(''radii'' \<mapsto> PStr ''read'')\<rparr>) k
              = apply_act a (look c u k)"
    by (cases c; cases "k = ''radii''") (simp_all add: ex_act_keep ex_act_assign ex_act_put)
qed (simp add: shape_def)

lemma sim_ow_nbo: "sim (ow_nbo norm sec sec_dict)"
proof (rule simI)
  fix st st' u
  assume h: "ow_nbo norm sec sec_dict st = Inr st'" and sh: "shape st u"
  show "shape st st' \<and> (\<exists>u'. ow_nbo norm sec sec_dict u = Inr u' \<and> shape st' u'
        \<and> (\<forall>c k. \<exists>a. look c st' k = apply_act a (look c st k)
                      \<and> look c u' k = apply_act a (look c u k)))"
  proof (cases "sec = ''nbo''")
    case False
    with h sh show ?thesis by (simp add: ow_nbo_def shape_refl ex_act_keep)
  next
    case True
    with h obtain temp d where t: "norm sec_dict = Inr temp" and d: "mynbo st = Some d"
      and st': "st' = st\<lparr>mynbo := Some (assign_all d temp)\<rparr>"
      by (auto simp: ow_nbo_def bind_err_eq_Inr split: option.splits)
    from sh d obtain d' where d': "mynbo u = Some d'" by (auto simp: shape_def)
    let ?u' = "u\<lparr>mynbo := Some (assign_all d' temp)\<rparr>"
    have u: "ow_nbo norm sec sec_dict u = Inr ?u'"
      by (simp add: ow_nbo_def True t d')
    have acts: "\<exists>a. look c st' k = apply_act a (look c st k)
        \<and> look c ?u' k = apply_act a (look c u k)" for c k
      by (cases c) (simp_all add: st' d d' ex_act_keep ex_act_assign)
    from sh d d' have "shape st st'" "shape st' ?u'"
      by (simp_all add: shape_def st')
    with u acts show ?thesis by blast
  qed
qed

lemma sim_ow_geom_opt: "sim (ow_geom_opt norm sec sec_dict)"
proof (rule simI)
  fix st st' u
  assume h: "ow_geom_opt norm sec sec_dict st = Inr st'" and sh: "shape st u"
  show "shape st st' \<and> (\<exists>u'. ow_geom_opt norm sec sec_dict u = Inr u' \<and> shape st' u'
        \<and> (\<forall>c k. \<exists>a. look c st' k = apply_act a (look c st k)
                      \<and> look c u' k = apply_act a (look c u k)))"
  proof (cases "sec = ''geom_opt''")
    case False
    with h sh show ?thesis by (simp add: ow_geom_opt_def shape_refl ex_act_keep)
  next
    case True
    with h obtain temp d where t: "norm sec_dict = Inr temp" and d: "my_geom_opt st = Some d"
      and st': "st' = st\<lparr>my_geom_opt := Some (assign_all d temp)\<rparr>"
      by (auto simp: ow_geom_opt_def bind_err_eq_Inr split: option.splits)
    from sh d obtain d' where d': "my_geom_opt u = Some d'" by (auto simp: shape_def)
    let ?u' = "u\<lparr>my_geom_opt := Some (assign_all d' temp)\<rparr>"
    have u: "ow_geom_opt norm sec sec_dict u = Inr ?u'"
      by (simp add: ow_geom_opt_def True t d')
    have acts: "\<exists>a. look c st' k = apply_act a (look c st k)
        \<and> look c ?u' k = apply_act a (look c u k)" for c k
      by (cases c) (simp_all add: st' d d' ex_act_keep ex_act_assign)
    from sh d d' have "shape st st'" "shape st' ?u'"
      by (simp_all add: shape_def st')
    with u acts show ?thesis by blast
  qed
qed


lemma dom_incl_solvent_method:
  "dom_incl st u \<Longrightarrow> myrem st ''solvent_method'' = Some m \<Longrightarrow> \<exists>m'. myrem u ''solvent_method'' = Some m'"
  unfolding dom_incl_def by (drule spec[of _ Rem], drule spec[of _ "''solvent_method''"]) auto

lemma sim_ow_solvent: "sim (ow_solvent norm sec sec_dict)"
proof (rule simI)
  fix st st' u
  assume h: "ow_solvent norm sec sec_dict st = Inr st'" and sh: "shape st u" and di: "dom_incl st u"
  show "shape st st' \<and> (\<exists>u'. ow_solvent norm sec sec_dict u = Inr u' \<and> shape st' u'
        \<and> (\<forall>c k. \<exists>a. look c st' k = apply_act a (look c st k)
                      \<and> look c u' k = apply_act a (look c u k)))"
  proof (cases "sec = ''solvent''")
    case False
    with h sh show ?thesis by (simp add: ow_solvent_def shape_refl ex_act_keep)
  next
    case True
    with h obtain temp m where t: "norm sec_dict = Inr temp"
      and m: "myrem st ''solvent_method'' = Some m"
      and st': "st' = (if m \<noteq> PStr ''pcm'' then warn warn_solvent st else st)
                  \<lparr>mysolvent := assign_all (mysolvent st) temp\<rparr>"
      by (auto simp: ow_solvent_def rem_solvent_method_def bind_err_eq_Inr Let_def warn_def
            split: option.splits if_splits)
    from dom_incl_solvent_method[OF di m] obtain m' where m': "myrem u ''solvent_method'' = Some m'"
      by blast
    let ?u' = "(if m' \<noteq> PStr ''pcm'' then warn warn_solvent u else u)
                  \<lparr>mysolvent := assign_all (mysolvent u) temp\<rparr>"
    have u: "ow_solvent norm sec sec_dict u = Inr ?u'"
      by (simp add: ow_solvent_def True t m' rem_solvent_method_def Let_def warn_def)
    have acts: "\<exists>a. look c st' k = apply_act a (look c st k)
        \<and> look c ?u' k = apply_act a (look c u k)" for c k
      by (cases c) (simp_all add: st' warn_def ex_act_keep ex_act_assign)
    from sh have "shape st st'" "shape st' ?u'"
      by (simp_all add: shape_def st' warn_def)
    with u acts show ?thesis by blast
  qed
qed

lemma sim_svp_rhoiso: "sim (svp_rhoiso tbl inp k v)"
proof (rule simI)
  fix st st' u
  assume h: "svp_rhoiso tbl inp k v st = Inr st'" and sh: "shape st u"
  let ?goal = "\<lambda>u'. svp_rhoiso tbl inp k v u = Inr u' \<and> shape st' u'
        \<and> (\<forall>c k. \<exists>a. look c st' k = apply_act a (look c st k)
                      \<and> look c u' k = apply_act a (look c u k))"
  have keep: "shape st st' \<and> (\<exists>u'. ?goal u')"
    if "st' = st" "svp_rhoiso tbl inp k v u = Inr u"
    using that sh by (auto simp: shape_refl ex_act_keep)
  show "shape st st' \<and> (\<exists>u'. ?goal u')"
  proof (cases "k = ''rhoiso''")
    case False
    with h show ?thesis by (intro keep) (simp_all add: svp_rhoiso_def)
  next
    case rho: True
    show ?thesis
    proof (cases "cmirs_solvent inp")
      case None
      with h rho show ?thesis by (intro keep) (simp_all add: svp_rhoiso_def)
    next
      case (Some s)
      from h rho Some obtain e where e: "tbl s = Some e"
        and v: "v = PStr ''0.001'' \<or> v = PStr ''0.0005''"
        by (auto simp: svp_rhoiso_def cmirs_contour_def bind_err_eq_Inr split: if_splits option.splits)
      show ?thesis
      proof (cases "v = PStr ''0.001''")
        case True
        have "svp_rhoiso tbl inp k v x = Inr (x\<lparr>mypcm_nonels := mypcm_nonels x\<rparr>)" for x
          by (simp add: svp_rhoiso_def rho Some cmirs_contour_def e True remerge_self)
        then have "svp_rhoiso tbl inp k v x = Inr x" for x by simp
        with h show ?thesis by (intro keep) simp_all
      next
        case False
        with v have v5: "v = PStr ''0.0005''" by simp
        have r: "svp_rhoiso tbl inp k v x
            = Inr (x\<lparr>mypcm_nonels := remerge (iso_0005 e) (mypcm_nonels x)\<rparr>)" for x
          by (simp add: svp_rhoiso_def rho Some cmirs_contour_def e v5)
        from h have st': "st' = st\<lparr>mypcm_nonels := remerge (iso_0005 e) (mypcm_nonels st)\<rparr>"
          by (simp add: r)
        let ?u' = "u\<lparr>mypcm_nonels := remerge (iso_0005 e) (mypcm_nonels u)\<rparr>"
        have acts: "\<exists>a. look c st' k = apply_act a (look c st k)
            \<and> look c ?u' k = apply_act a (look c u k)" for c k
          by (cases c) (simp_all add: st' ex_act_keep ex_act_remerge)
        from sh have "shape st st'" "shape st' ?u'" by (simp_all add: shape_def st')
        with r[of u] acts show ?thesis by blast
      qed
    qed
  qed
qed

lemma sim_svp_idefesr: "sim (\<lambda>st. Inr (svp_idefesr inp k v st))"
proof (rule sim_pure)
  fix st u c k'
  show "\<exists>a. look c (svp_idefesr inp k v st) k' = apply_act a (look c st k')
          \<and> look c (svp_idefesr inp k v u) k' = apply_act a (look c u k')"
    by (cases c) (simp_all add: svp_idefesr_def warn_def Let_def ex_act_keep)
qed (simp add: shape_def svp_idefesr_def warn_def Let_def)

lemma sim_svp_dielst: "sim (svp_dielst k)"
proof (rule simI)
  fix st st' u
  assume h: "svp_dielst k st = Inr st'" and sh: "shape st u" and di: "dom_incl st u"
  show "shape st st' \<and> (\<exists>u'. svp_dielst k u = Inr u' \<and> shape st' u'
        \<and> (\<forall>c k. \<exists>a. look c st' k = apply_act a (look c st k)
                      \<and> look c u' k = apply_act a (look c u k)))"
  proof (cases "k = ''dielst''")
    case False
    with h sh show ?thesis by (simp add: svp_dielst_def shape_refl ex_act_keep)
  next
    case True
    with h obtain m where m: "myrem st ''solvent_method'' = Some m"
      and st': "st' = (if m \<noteq> PStr ''isosvp'' then warn warn_dielst st else st)"
      by (auto simp: svp_dielst_def rem_solvent_method_def bind_err_eq_Inr split: option.splits)
    from dom_incl_solvent_method[OF di m] obtain m' where m': "myrem u ''solvent_method'' = Some m'"
      by blast
    let ?u' = "(if m' \<noteq> PStr ''isosvp'' then warn warn_dielst u else u)"
    have u: "svp_dielst k u = Inr ?u'"
      by (simp add: svp_dielst_def True m' rem_solvent_method_def)
    have acts: "\<exists>a. look c st' k = apply_act a (look c st k)
        \<and> look c ?u' k = apply_act a (look c u k)" for c k
      by (cases c) (simp_all add: st' warn_def ex_act_keep)
    from sh have "shape st st'" "shape st' ?u'"
      by (simp_all add: shape_def st' warn_def)
    with u acts show ?thesis by blast
  qed
qed

lemma sim_svp_set: "sim (\<lambda>st. Inr (st\<lparr>mysvp := (mysvp st)(k \<mapsto> v)\<rparr>))"
proof (rule sim_pure)
  fix st u c k'
  show "\<exists>a. look c (st\<lparr>mysvp := (mysvp st)(k \<mapsto> v)\<rparr>) k' = apply_act a (look c st k')
          \<and> look c (u\<lparr>mysvp := (mysvp u)(k \<mapsto> v)\<rparr>) k' = apply_act a (look c u k')"
    by (cases c; cases "k' = k") (simp_all add: ex_act_keep ex_act_put)
qed (simp add: shape_def)

lemma sim_svp_item: "sim (svp_item tbl inp k v)"
proof -
  have "sim (\<lambda>st. bind_err (Inr (svp_idefesr inp k v st)) (svp_dielst k))"
    by (rule sim_bind[OF sim_svp_idefesr sim_svp_dielst])
  then have mid: "sim (\<lambda>st. svp_dielst k (svp_idefesr inp k v st))" by simp
  have "sim (\<lambda>st. bind_err (svp_dielst k (svp_idefesr inp k v st))
                    (\<lambda>st. Inr (st\<lparr>mysvp := (mysvp st)(k \<mapsto> v)\<rparr>)))"
    by (rule sim_bind[OF mid sim_svp_set])
  from sim_bind[OF sim_svp_rhoiso this] show ?thesis
    by (simp add: svp_item_def[abs_def])
qed

lemma sim_svp_items: "sim (svp_items tbl inp temp)"
proof (induction temp)
  case Nil
  have "svp_items tbl inp [] = Inr" by (rule ext) simp
  then show ?case by (simp add: sim_Inr)
next
  case (Cons kv temp)
  obtain k v where kv: "kv = (k, v)" by (cases kv)
  have "svp_items tbl inp (kv # temp)
      = (\<lambda>st. bind_err (svp_item tbl inp k v st) (svp_items tbl inp temp))"
    by (rule ext) (simp add: kv)
  then show ?case using sim_bind[OF sim_svp_item Cons.IH] by simp
qed

lemma sim_ow_svp: "sim (ow_svp norm tbl inp sec sec_dict)"
  unfolding ow_svp_def[abs_def]
  by (intro sim_if sim_norm sim_svp_items)

lemma sim_overwrite_section: "sim (overwrite_section norm tbl inp sec sec_dict)"
  unfolding overwrite_section_def[abs_def]
  by (intro sim_bind sim_ow_rem sim_ow_pcm sim_ow_solvent sim_ow_smx sim_ow_scan sim_ow_vdw
        sim_ow_plots sim_ow_nbo sim_ow_geom_opt sim_ow_opt sim_ow_svp sim_ow_pcm_nonels)

lemma sim_overwrite_sections: "sim (overwrite_sections norm tbl inp ovr)"
proof (induction ovr)
  case Nil
  have "overwrite_sections norm tbl inp [] = Inr" by (rule ext) simp
  then show ?case by (simp add: sim_Inr)
next
  case (Cons p ovr)
  obtain sec sec_dict where p: "p = (sec, sec_dict)" by (cases p)
  have "overwrite_sections norm tbl inp (p # ovr)
      = (\<lambda>st. bind_err (overwrite_section norm tbl inp sec sec_dict st)
                 (overwrite_sections norm tbl inp ovr))"
    by (rule ext) (simp add: p)
  then show ?case using sim_bind[OF sim_overwrite_section Cons.IH] by simp
qed


lemma acts_rel_defined:
  assumes "acts_rel st st' u u'"
  shows "dom_incl st st'"
  unfolding dom_incl_def
proof (intro allI impI)
  fix c k
  assume d: "look c st k \<noteq> None"
  from assms obtain a where "look c st' k = apply_act a (look c st k)"
    unfolding acts_rel_def by blast
  with d show "look c st' k \<noteq> None" by (simp add: apply_act_defined)
qed

lemma same_sectionsI:
  assumes "\<And>c. look c a = look c b" and "shape a b"
  shows "same_sections a b"
proof -
  have nbo: "mynbo a = mynbo b"
    using assms(1)[of Nbo] assms(2) by (cases "mynbo a"; cases "mynbo b") (auto simp: shape_def)
  have geo: "my_geom_opt a = my_geom_opt b"
    using assms(1)[of Geom_opt] assms(2)
    by (cases "my_geom_opt a"; cases "my_geom_opt b") (auto simp: shape_def)
  show ?thesis
    unfolding same_sections_def
    using assms(1)[of Rem] assms(1)[of Opt] assms(1)[of Pcm] assms(1)[of Solvent]
      assms(1)[of Smx] assms(1)[of Scan] assms(1)[of Vdw] assms(1)[of Plots] assms(1)[of Svp]
      assms(1)[of Pcm_nonels] nbo geo assms(2)
    by (intro locals.equality) (simp_all add: shape_def)
qed

lemma sim_idempotent:
  assumes "sim h" "h st = Inr st'"
  shows "\<exists>st''. h st' = Inr st'' \<and> same_sections st'' st'"
proof -
  have refl: "dom_incl st st" by (simp add: dom_incl_def)
  from assms shape_refl[of st] refl obtain u1 where sh: "shape st st'" and u1: "h st = Inr u1"
    and a1: "acts_rel st st' st u1"
    unfolding sim_def by blast
  from acts_rel_defined[OF a1] have di: "dom_incl st st'" .
  from assms sh di obtain st'' where h2: "h st' = Inr st''" and sh2: "shape st' st''"
    and a2: "acts_rel st st' st' st''"
    unfolding sim_def by blast
  have "look c st'' = look c st'" for c
  proof (rule ext)
    fix k
    from a2 obtain a where a: "look c st' k = apply_act a (look c st k)"
      "look c st'' k = apply_act a (look c st' k)" unfolding acts_rel_def by blast
    then show "look c st'' k = look c st' k" by (simp add: apply_act_idem)
  qed
  moreover from sh2 have "shape st'' st'" by (auto simp: shape_def)
  ultimately have "same_sections st'' st'" by (rule same_sectionsI)
  with h2 show ?thesis by blast
qed

lemma stage_overwrite_idempotent:
  assumes "stage_overwrite norm tbl inp st = Inr st'"
  shows "\<exists>st''. stage_overwrite norm tbl inp st' = Inr st'' \<and> same_sections st'' st'"
proof (cases "overwrite_inputs inp")
  case None
  with assms show ?thesis by (simp add: stage_overwrite_def same_sections_def)
next
  case (Some ovr)
  with assms have "overwrite_sections norm tbl inp ovr st = Inr st'"
    by (simp add: stage_overwrite_def)
  from sim_idempotent[OF sim_overwrite_sections this] Some show ?thesis
    by (simp add: stage_overwrite_def)
qed

lemma same_sections_warnings: "same_sections a b \<Longrightarrow> a = b\<lparr>warnings := warnings a\<rparr>"
proof -
  assume "same_sections a b"
  then have "a\<lparr>warnings := []\<rparr> = b\<lparr>warnings := []\<rparr>" by (simp add: same_sections_def)
  then have "a\<lparr>warnings := []\<rparr>\<lparr>warnings := warnings a\<rparr> = b\<lparr>warnings := []\<rparr>\<lparr>warnings := warnings a\<rparr>"
    by simp
  then show ?thesis by simp
qed

lemma stage_extra_scf_print_warnings:
  assumes "stage_extra_scf_print inp st = Inr st'"
  shows "stage_extra_scf_print inp (st\<lparr>warnings := w\<rparr>) = Inr (st'\<lparr>warnings := w\<rparr>)"
proof (cases "extra_scf_print inp")
  case False
  with assms show ?thesis by (auto simp: stage_extra_scf_print_def)
next
  case True
  show ?thesis
  proof (cases "myrem st ''scf_convergence''")
    case None
    with assms True show ?thesis by (auto simp: stage_extra_scf_print_def Let_def)
  next
    case (Some c)
    show ?thesis
    proof (cases "py_int c")
      case (Inl e)
      with assms True Some show ?thesis by (auto simp: stage_extra_scf_print_def Let_def)
    next
      case (Inr i)
      with assms True Some show ?thesis
        by (cases "i < 8") (auto simp: stage_extra_scf_print_def Let_def)
    qed
  qed
qed

lemma normalise_radii:
  "lower_and_check_unique [(''radii'', PStr ''bondi'')] = Inr [(''radii'', PStr ''bondi'')]"
  by code_simp

lemma normalise_vdw:
  "lower_and_check_unique [(''16'', PStr ''3.0'')] = Inr [(''16'', PStr ''3.0'')]"
  by code_simp

lemma example_override_builds:
  "\<exists>out. QChemDictSet QCInput_init lower_and_check_unique CMIRS_SETTINGS
      (example_input\<lparr>pcm_dielectric := Some ''78.39'',
         overwrite_inputs := Some [(''pcm'', [(''radii'', PStr ''bondi'')]),
                                   (''van_der_waals'', [(''16'', PStr ''3.0'')])]\<rparr>) = Inr out
     \<and> mypcm (built out) ''radii'' = Some (PStr ''read'')"
  by (simp add: build_defs example_input_def overwrite_section_def ow_rem_def ow_pcm_def
        ow_solvent_def ow_smx_def ow_scan_def ow_vdw_def ow_plots_def ow_nbo_def
        ow_geom_opt_def ow_opt_def ow_svp_def ow_pcm_nonels_def normalise_radii normalise_vdw)

text \<open>
  C9. The override merge is idempotent. From any state, if the merge of lines 412-497
  returns, then running it again on the state it returned also returns, and changes no
  section (only the warnings are issued again). Hence, for every input whose build
  returns, the build with the merge run twice returns as well, with the same sections and
  the same table, \<open>opt_variables\<close>, \<open>scan_variables\<close>, \<open>new_geom_opt\<close> and \<open>nbo_params\<close>
  left behind.
\<close>

theorem C9_override_merge_idempotent:
  "(stage_overwrite norm tbl inp st = Inr st' \<longrightarrow>
      (\<exists>st''. stage_overwrite norm tbl inp st' = Inr st'' \<and> same_sections st'' st'))
   \<and> (QChemDictSet super norm tbl inp = Inr out \<longrightarrow>
      (\<exists>out2. QChemDictSet_merge_twice super norm tbl inp = Inr out2
         \<and> same_sections (built out2) (built out)
         \<and> table_after out2 = table_after out
         \<and> opt_variables_after out2 = opt_variables_after out
         \<and> scan_variables_after out2 = scan_variables_after out
         \<and> new_geom_opt_after out2 = new_geom_opt_after out
         \<and> nbo_params_after out2 = nbo_params_after out))"
proof (intro conjI impI)
  assume "stage_overwrite norm tbl inp st = Inr st'"
  then show "\<exists>st''. stage_overwrite norm tbl inp st' = Inr st'' \<and> same_sections st'' st'"
    by (rule stage_overwrite_idempotent)
next
  assume "QChemDictSet super norm tbl inp = Inr out"
  then obtain st1 st2 st3 st4 st5 where
    s1: "stage_seed inp = Inr st1" and s2: "stage_solvation tbl inp st1 = Inr st2"
    and s3: "stage_features inp st2 = Inr st3" and s4: "stage_overwrite norm tbl inp st3 = Inr st4"
    and s5: "stage_extra_scf_print inp st4 = Inr st5"
    and acc: "super (super_args inp st5) = None" and out: "out = finish tbl inp st5"
    by (auto simp: QChemDictSet_Inr)
  from stage_overwrite_idempotent[OF s4] obtain st4' where
    s4': "stage_overwrite norm tbl inp st4 = Inr st4'" and same: "same_sections st4' st4"
    by blast
  from same_sections_warnings[OF same] have e: "st4' = st4\<lparr>warnings := warnings st4'\<rparr>" .
  have s5': "stage_extra_scf_print inp st4' = Inr (st5\<lparr>warnings := warnings st4'\<rparr>)"
    using stage_extra_scf_print_warnings[OF s5, of "warnings st4'"] e by simp
  let ?out2 = "finish tbl inp (st5\<lparr>warnings := warnings st4'\<rparr>)"
  have "super_args inp (st5\<lparr>warnings := warnings st4'\<rparr>) = super_args inp st5"
    by (simp add: super_args_def)
  with acc have "QChemDictSet_merge_twice super norm tbl inp = Inr ?out2"
    by (simp add: QChemDictSet_merge_twice_def call_super_def exception_only_def
          s1 s2 s3 s4 s4' s5')
  moreover have "same_sections (built ?out2) (built out)"
    by (simp add: out finish_def same_sections_def)
  moreover have "table_after ?out2 = table_after out"
    "opt_variables_after ?out2 = opt_variables_after out"
    "scan_variables_after ?out2 = scan_variables_after out"
    "new_geom_opt_after ?out2 = new_geom_opt_after out"
    "nbo_params_after ?out2 = nbo_params_after out"
    by (simp_all add: out finish_def split: option.splits)
  ultimately show "\<exists>out2. QChemDictSet_merge_twice super norm tbl inp = Inr out2
         \<and> same_sections (built out2) (built out)
         \<and> table_after out2 = table_after out
         \<and> opt_variables_after out2 = opt_variables_after out
         \<and> scan_variables_after out2 = scan_variables_after out
         \<and> new_geom_opt_after out2 = new_geom_opt_after out
         \<and> nbo_params_after out2 = nbo_params_after out"
    by blast
qed

theorem C9_witness:
  "\<exists>out out2.
     QChemDictSet QCInput_init lower_and_check_unique CMIRS_SETTINGS
       (example_input\<lparr>pcm_dielectric := Some ''78.39'',
          overwrite_inputs := Some [(''pcm'', [(''radii'', PStr ''bondi'')]),
                                    (''van_der_waals'', [(''16'', PStr ''3.0'')])]\<rparr>) = Inr out
     \<and> mypcm (built out) ''radii'' = Some (PStr ''read'')
     \<and> QChemDictSet_merge_twice QCInput_init lower_and_check_unique CMIRS_SETTINGS
       (example_input\<lparr>pcm_dielectric := Some ''78.39'',
          overwrite_inputs := Some [(''pcm'', [(''radii'', PStr ''bondi'')]),
                                    (''van_der_waals'', [(''16'', PStr ''3.0'')])]\<rparr>) = Inr out2
     \<and> same_sections (built out2) (built out)"
proof -
  let ?inp = "example_input\<lparr>pcm_dielectric := Some ''78.39'',
          overwrite_inputs := Some [(''pcm'', [(''radii'', PStr ''bondi'')]),
                                    (''van_der_waals'', [(''16'', PStr ''3.0'')])]\<rparr>"
  from example_override_builds obtain out where
    b: "QChemDictSet QCInput_init lower_and_check_unique CMIRS_SETTINGS ?inp = Inr out"
    and r: "mypcm (built out) ''radii'' = Some (PStr ''read'')" by blast
  from C9_override_merge_idempotent[where super = QCInput_init
      and norm = lower_and_check_unique and tbl = CMIRS_SETTINGS and inp = ?inp and out = out] b
  obtain out2 where "QChemDictSet_merge_twice QCInput_init lower_and_check_unique CMIRS_SETTINGS ?inp = Inr out2"
    "same_sections (built out2) (built out)" by blast
  with b r show ?thesis by blast
qed

end
